theory Spec2Isabelle
  imports Complex_Main "HOL-Library.Word"
begin

section \<open>Exceptions and Python string primitives\<close>

text \<open>
  Every \<open>raise\<close> of the source is a value: a computation that may raise has the type
  \<open>exn + 'a\<close>, with \<open>Inl\<close> the exception. \<open>Cv2Error\<close> is \<open>cv2.error\<close>;
  \<open>ValueError\<close>, \<open>IndexError\<close> and \<open>KeyError\<close> are the built-in exceptions;
  \<open>OtherException\<close> stands for any other subclass of \<open>Exception\<close>;
  \<open>HTTPException\<close> is FastAPI's, with its status code and detail.
  Logging is not modelled: it changes no value that the functions return.
\<close>

datatype exn =
    Cv2Error string
  | ValueError string
  | IndexError string
  | KeyError string
  | OtherException string
  | HTTPException nat string

function str_nat :: "nat \<Rightarrow> string" where
  "str_nat n =
     (if n < 10 then [char_of (48 + n)]
      else str_nat (n div 10) @ [char_of (48 + n mod 10)])"
  by pat_completeness auto
termination
  by (relation "measure id") auto

declare str_nat.simps [simp del]

text \<open>\<open>str(e)\<close>, as the f-strings of the source format an exception.\<close>

fun str_exn :: "exn \<Rightarrow> string" where
  "str_exn (Cv2Error m) = m"
| "str_exn (ValueError m) = m"
| "str_exn (IndexError m) = m"
| "str_exn (KeyError m) = m"
| "str_exn (OtherException m) = m"
| "str_exn (HTTPException c d) = str_nat c @ '': '' @ d"

text \<open>
  A Python \<open>str\<close> is a sequence of Unicode code points. The argument of
  \<open>map_age_to_group\<close> may be any \<open>str\<close>, so it is a list of code points; the labels and
  messages that the program itself builds are literals of the source and stay HOL
  strings, and \<open>str_of\<close> gives the code points of such a literal.
\<close>

type_synonym py_str = "nat list"

definition str_of :: "string \<Rightarrow> py_str" where
  "str_of s = map of_char s"

text \<open>\<open>s.strip(chars)\<close>: leading and trailing characters of the set are removed.\<close>

definition py_strip :: "'a set \<Rightarrow> 'a list \<Rightarrow> 'a list" where
  "py_strip cs s = rev (dropWhile (\<lambda>c. c \<in> cs) (rev (dropWhile (\<lambda>c. c \<in> cs) s)))"

text \<open>\<open>s.split(sep)\<close> for a one-character separator: never an empty list.\<close>

fun py_split :: "'a \<Rightarrow> 'a list \<Rightarrow> 'a list list" where
  "py_split sep [] = [[]]"
| "py_split sep (c # cs) =
     (if c = sep then [] # py_split sep cs
      else (case py_split sep cs of
              [] \<Rightarrow> [[c]]
            | p # ps \<Rightarrow> (c # p) # ps))"

text \<open>\<open>xs[i]\<close> for a non-negative index: \<open>IndexError\<close> out of range.\<close>

definition py_index :: "'a list \<Rightarrow> nat \<Rightarrow> exn + 'a" where
  "py_index xs i =
     (if i < length xs then Inr (xs ! i) else Inl (IndexError ''list index out of range''))"

text \<open>
  \<open>int(s)\<close> on a \<open>str\<close>, base 10, as CPython 3.11 computes it. First every code point
  from 127 on is replaced: a Unicode white space by a blank, a Unicode decimal digit by
  its ASCII digit, and at anything else the string is cut and ends in a question mark;
  code points below 127 stay as they are (so the separators \<open>0x1C\<close> to \<open>0x1F\<close> stay and
  are no white space for the parser). Then the C parser skips the white space of the C
  locale at both ends, takes one sign, and reads decimal digits in which single
  underscores may separate digits. Anything else raises \<open>ValueError\<close>, and so do more
  than 4300 digits, the default limit of the interpreter, which the program does not
  change. The two tables are those of Unicode 14.0: every decimal digit lies in a run
  of ten code points that starts at a digit zero.
\<close>

definition Py_ISSPACE :: "nat set" where
  "Py_ISSPACE = {0x09, 0x0A, 0x0B, 0x0C, 0x0D, 0x20}"

definition Py_UNICODE_ISSPACE :: "nat \<Rightarrow> bool" where
  "Py_UNICODE_ISSPACE c =
     ((0x09 \<le> c \<and> c \<le> 0x0D) \<or> (0x1C \<le> c \<and> c \<le> 0x20) \<or> c = 0x85 \<or> c = 0xA0 \<or>
      c = 0x1680 \<or> (0x2000 \<le> c \<and> c \<le> 0x200A) \<or> c = 0x2028 \<or> c = 0x2029 \<or>
      c = 0x202F \<or> c = 0x205F \<or> c = 0x3000)"

definition decimal_zeros :: "nat list" where
  "decimal_zeros =
     [0x30, 0x660, 0x6F0, 0x7C0, 0x966, 0x9E6, 0xA66, 0xAE6, 0xB66, 0xBE6, 0xC66, 0xCE6,
      0xD66, 0xDE6, 0xE50, 0xED0, 0xF20, 0x1040, 0x1090, 0x17E0, 0x1810, 0x1946, 0x19D0,
      0x1A80, 0x1A90, 0x1B50, 0x1BB0, 0x1C40, 0x1C50, 0xA620, 0xA8D0, 0xA900, 0xA9D0,
      0xA9F0, 0xAA50, 0xABF0, 0xFF10, 0x104A0, 0x10D30, 0x11066, 0x110F0, 0x11136,
      0x111D0, 0x112F0, 0x11450, 0x114D0, 0x11650, 0x116C0, 0x11730, 0x118E0, 0x11950,
      0x11C50, 0x11D50, 0x11DA0, 0x16A60, 0x16AC0, 0x16B50, 0x1D7CE, 0x1D7D8, 0x1D7E2,
      0x1D7EC, 0x1D7F6, 0x1E140, 0x1E2F0, 0x1E950, 0x1FBF0]"

definition Py_UNICODE_TODECIMAL :: "nat \<Rightarrow> nat option" where
  "Py_UNICODE_TODECIMAL c =
     (case filter (\<lambda>z. z \<le> c \<and> c < z + 10) decimal_zeros of
        [] \<Rightarrow> None
      | z # zs \<Rightarrow> Some (c - z))"

fun transform_decimal_and_space_to_ascii :: "py_str \<Rightarrow> nat list" where
  "transform_decimal_and_space_to_ascii [] = []"
| "transform_decimal_and_space_to_ascii (ch # rest) =
     (if ch < 127 then ch # transform_decimal_and_space_to_ascii rest
      else if Py_UNICODE_ISSPACE ch then 0x20 # transform_decimal_and_space_to_ascii rest
      else (case Py_UNICODE_TODECIMAL ch of
              None \<Rightarrow> [0x3F]
            | Some decimal \<Rightarrow> (0x30 + decimal) # transform_decimal_and_space_to_ascii rest))"

definition digit_val :: "nat \<Rightarrow> int option" where
  "digit_val c = (if 0x30 \<le> c \<and> c \<le> 0x39 then Some (int c - 0x30) else None)"

text \<open>
  \<open>parse_digits acc digits prev cs\<close>: the digits read so far have the value \<open>acc\<close> and
  there are \<open>digits\<close> of them (underscores are not counted); \<open>prev\<close> says that the
  character before \<open>cs\<close> was a digit, so that an underscore may follow and the string
  may end.
\<close>

fun parse_digits :: "int \<Rightarrow> nat \<Rightarrow> bool \<Rightarrow> nat list \<Rightarrow> (int \<times> nat) option" where
  "parse_digits acc digits prev [] = (if prev then Some (acc, digits) else None)"
| "parse_digits acc digits prev (c # cs) =
     (if c = 0x5F then (if prev then parse_digits acc digits False cs else None)
      else (case digit_val c of
              None \<Rightarrow> None
            | Some d \<Rightarrow> parse_digits (10 * acc + d) (Suc digits) True cs))"

definition int_max_str_digits :: nat where
  "int_max_str_digits = 4300"

definition py_int :: "py_str \<Rightarrow> exn + int" where
  "py_int s =
     (let t = py_strip Py_ISSPACE (transform_decimal_and_space_to_ascii s);
          (neg, body) = (case t of
                           [] \<Rightarrow> (False, [])
                         | c # cs \<Rightarrow> if c = 0x2D then (True, cs)
                                     else if c = 0x2B then (False, cs)
                                     else (False, t))
      in case parse_digits 0 0 False body of
           None \<Rightarrow> Inl (ValueError ''invalid literal for int() with base 10'')
         | Some (n, digits) \<Rightarrow>
             if digits > int_max_str_digits
             then Inl (ValueError ''Exceeds the limit (4300 digits) for integer string conversion'')
             else Inr (if neg then - n else n))"

text \<open>\<open>needle in hay\<close> on strings: \<open>needle\<close> occurs as a contiguous part of \<open>hay\<close>.\<close>

fun starts_with :: "string \<Rightarrow> string \<Rightarrow> bool" where
  "starts_with [] hay = True"
| "starts_with (n # ns) [] = False"
| "starts_with (n # ns) (c # cs) = (n = c \<and> starts_with ns cs)"

fun str_in :: "string \<Rightarrow> string \<Rightarrow> bool" where
  "str_in needle [] = (needle = [])"
| "str_in needle (c # cs) = (starts_with needle (c # cs) \<or> str_in needle cs)"

text \<open>\<open>s.lower()\<close> on an ASCII string.\<close>

definition lower_char :: "char \<Rightarrow> char" where
  "lower_char c =
     (case map_of (zip ''ABCDEFGHIJKLMNOPQRSTUVWXYZ'' ''abcdefghijklmnopqrstuvwxyz'') c of
        None \<Rightarrow> c
      | Some l \<Rightarrow> l)"

definition py_lower :: "string \<Rightarrow> string" where
  "py_lower s = map lower_char s"

section \<open>AgeGroupMapper: \<open>map_age_to_group\<close> of \<open>grpc_server.py\<close>\<close>

text \<open>
  The body of the \<open>try\<close>: \<open>parts[0]\<close> may raise \<open>IndexError\<close>, \<open>int\<close> may raise
  \<open>ValueError\<close>; then the chain of comparisons.
\<close>

definition map_age_to_group_try :: "py_str \<Rightarrow> exn + string" where
  "map_age_to_group_try age_range =
     (let parts = py_split (of_char CHR ''-'') age_range in
      case py_index parts 0 of
        Inl e \<Rightarrow> Inl e
      | Inr p \<Rightarrow>
         (case py_int p of
            Inl e \<Rightarrow> Inl e
          | Inr min_age \<Rightarrow>
              Inr (if min_age < 13 then ''child''
                   else if min_age < 20 then ''teen''
                   else if min_age < 35 then ''young_adult''
                   else if min_age < 50 then ''adult''
                   else ''senior'')))"

text \<open>
  \<open>except (ValueError, IndexError)\<close> returns \<open>"adult"\<close>; any other exception would
  leave the function, so the result type keeps the \<open>Inl\<close>.
\<close>

definition map_age_to_group :: "py_str \<Rightarrow> exn + string" where
  "map_age_to_group age_range0 =
     (let age_range = py_strip (set (str_of ''()'')) age_range0 in
      case map_age_to_group_try age_range of
        Inl (ValueError m) \<Rightarrow> Inr ''adult''
      | Inl (IndexError m) \<Rightarrow> Inr ''adult''
      | Inl e \<Rightarrow> Inl e
      | Inr g \<Rightarrow> Inr g)"

section \<open>The inference engine and the model handles\<close>

text \<open>
  A decoded image is a numpy array of shape \<open>(height, width, 3)\<close>. A blob is the
  tensor that \<open>cv2.dnn.blobFromImage\<close> builds; floating-point numbers are idealised
  as reals throughout.
\<close>

type_synonym byte = "8 word"

type_synonym pixel = "byte \<times> byte \<times> byte"

record frame =
  height :: nat
  width :: nat
  pixel_at :: "nat \<Rightarrow> nat \<Rightarrow> pixel"

datatype blob = Blob (blob_shape: "nat list") (blob_data: "real list")

text \<open>
  One row \<open>detections[0, 0, i, :]\<close> of the face detector's output: column 2 is the
  confidence, columns 3 to 6 the box in coordinates normalised to the image.
\<close>

record detection =
  det_conf :: real
  det_x1 :: real
  det_y1 :: real
  det_x2 :: real
  det_y2 :: real

text \<open>
  A \<open>cv2.dnn.Net\<close> handle is mutable: \<open>setInput\<close> stores a blob in it and
  \<open>forward\<close> runs the loaded weights on the blob stored last. The weights are fixed
  when the model is loaded; they are the function \<open>net_weights\<close>, which may raise.
\<close>

record 'o net =
  net_input :: "blob option"
  net_weights :: "blob \<Rightarrow> exn + 'o"

definition setInput :: "blob \<Rightarrow> 'o net \<Rightarrow> 'o net" where
  "setInput b n = n\<lparr>net_input := Some b\<rparr>"

definition forward :: "'o net \<Rightarrow> exn + 'o" where
  "forward n =
     (case net_input n of
        None \<Rightarrow> Inl (Cv2Error ''forward: no input set'')
      | Some b \<Rightarrow> net_weights n b)"

text \<open>
  The module globals of \<open>predictor.py\<close>: each handle is a loaded net or \<open>None\<close>.
  \<open>pipeline_calls\<close> is a ghost counter of the calls of \<open>predict_age_gender\<close>, kept
  to state that a handler answers without calling it.
\<close>

record world =
  face_net :: "detection list net option"
  age_net :: "real list list net option"
  gender_net :: "real list list net option"
  pipeline_calls :: nat

text \<open>The functions of OpenCV that the pipeline calls; each may raise \<open>cv2.error\<close>.\<close>

record cv2_lib =
  imdecode :: "byte list \<Rightarrow> exn + frame option"
  blobFromImage :: "frame \<Rightarrow> real \<Rightarrow> nat \<times> nat \<Rightarrow> real \<times> real \<times> real \<Rightarrow> bool \<Rightarrow> exn + blob"

definition FACE_CONFIDENCE_THRESHOLD :: real where
  "FACE_CONFIDENCE_THRESHOLD = 0.5"

definition MODEL_MEAN_VALUES :: "real \<times> real \<times> real" where
  "MODEL_MEAN_VALUES = (78.42633776, 87.76891437, 114.89584775)"

definition AGE_BUCKETS :: "string list" where
  "AGE_BUCKETS = [''(0-2)'', ''(4-6)'', ''(8-12)'', ''(15-20)'', ''(25-32)'', ''(38-43)'',
                  ''(48-53)'', ''(60-100)'']"

definition GENDER_LIST :: "string list" where
  "GENDER_LIST = [''Male'', ''Female'']"

text \<open>
  The loading of the models when the module is imported, lines 24 to 33 of
  \<open>predictor.py\<close>: three calls of \<open>cv2.dnn.readNet\<close> in one \<open>try\<close>, each of which
  gives a net or raises. On \<open>cv2.error\<close> all three globals are set to \<open>None\<close>; any
  other exception leaves the module, and then there is no program. Nothing else in the
  program assigns the three globals.
\<close>

definition load_models ::
  "exn + detection list net \<Rightarrow> exn + real list list net \<Rightarrow> exn + real list list net \<Rightarrow> exn + world" where
  "load_models read_face read_age read_gender =
     (case (case read_face of
              Inl e \<Rightarrow> Inl e
            | Inr f \<Rightarrow>
               (case read_age of
                  Inl e \<Rightarrow> Inl e
                | Inr a \<Rightarrow>
                   (case read_gender of
                      Inl e \<Rightarrow> Inl e
                    | Inr g \<Rightarrow> Inr (f, a, g)))) of
        Inr (f, a, g) \<Rightarrow>
          Inr \<lparr>face_net = Some f, age_net = Some a, gender_net = Some g, pipeline_calls = 0\<rparr>
      | Inl (Cv2Error m) \<Rightarrow>
          Inr \<lparr>face_net = None, age_net = None, gender_net = None, pipeline_calls = 0\<rparr>
      | Inl e \<Rightarrow> Inl e)"

text \<open>The states that the loader produces: all three handles loaded, or none.\<close>

definition all_or_nothing :: "world \<Rightarrow> bool" where
  "all_or_nothing s =
     ((face_net s = None \<and> age_net s = None \<and> gender_net s = None) \<or>
      (face_net s \<noteq> None \<and> age_net s \<noteq> None \<and> gender_net s \<noteq> None))"

section \<open>FaceLocator: \<open>_find_face\<close> of \<open>predictor.py\<close>\<close>

text \<open>
  \<open>astype("int")\<close> on a float: truncation towards zero into a signed 64-bit integer;
  a value outside its range is cast to the least 64-bit integer.
\<close>

definition astype_int :: "real \<Rightarrow> int" where
  "astype_int x =
     (let t = (if 0 \<le> x then \<lfloor>x\<rfloor> else \<lceil>x\<rceil>) in
      if - (2 ^ 63) \<le> t \<and> t < 2 ^ 63 then t else - (2 ^ 63))"

type_synonym box = "int \<times> int \<times> int \<times> int"

text \<open>
  The \<open>for\<close> loop over the detections, with its two variables \<open>best_face_box\<close> and
  \<open>max_confidence\<close> as the accumulator.
\<close>

fun find_face_loop :: "int \<Rightarrow> int \<Rightarrow> detection list \<Rightarrow> box option \<times> real \<Rightarrow> box option \<times> real" where
  "find_face_loop w h [] acc = acc"
| "find_face_loop w h (d # ds) (best_face_box, max_confidence) =
     (let confidence = det_conf d in
      if confidence > FACE_CONFIDENCE_THRESHOLD \<and> confidence > max_confidence then
        (let startX = max 0 (astype_int (det_x1 d * real_of_int w));
             startY = max 0 (astype_int (det_y1 d * real_of_int h));
             endX = min (w - 1) (astype_int (det_x2 d * real_of_int w));
             endY = min (h - 1) (astype_int (det_y2 d * real_of_int h))
         in find_face_loop w h ds
              (if endX > startX \<and> endY > startY then Some (startX, startY, endX, endY)
               else best_face_box,
               confidence))
      else find_face_loop w h ds (best_face_box, max_confidence))"

definition find_face :: "cv2_lib \<Rightarrow> world \<Rightarrow> frame \<Rightarrow> (exn + box option) \<times> world" where
  "find_face cv s frame =
     (case face_net s of
        None \<Rightarrow> (Inr None, s)
      | Some fnet \<Rightarrow>
         (let h = int (height frame); w = int (width frame) in
          case blobFromImage cv frame 1.0 (300, 300) (104.0, 177.0, 123.0) False of
            Inl e \<Rightarrow> (Inl e, s)
          | Inr blob \<Rightarrow>
             (let fnet' = setInput blob fnet; s' = s\<lparr>face_net := Some fnet'\<rparr> in
              case forward fnet' of
                Inl e \<Rightarrow> (Inl e, s')
              | Inr detections \<Rightarrow>
                  (Inr (fst (find_face_loop w h detections (None, 0.0))), s'))))"

section \<open>PredictionPipeline: \<open>predict_age_gender\<close> of \<open>predictor.py\<close>\<close>

text \<open>
  A slice bound \<open>i\<close> on an axis of length \<open>n\<close>: a negative bound counts from the end,
  and every bound is clamped to the axis. \<open>frame[r0:r1, c0:c1]\<close> is never an error; it is
  empty when a stop is not above its start.
\<close>

definition slice_index :: "nat \<Rightarrow> int \<Rightarrow> nat" where
  "slice_index n i = (if i < 0 then nat (max 0 (i + int n)) else min (nat i) n)"

definition crop :: "frame \<Rightarrow> int \<Rightarrow> int \<Rightarrow> int \<Rightarrow> int \<Rightarrow> frame" where
  "crop f r0 r1 c0 c1 =
     (let a = slice_index (height f) r0; b = slice_index (height f) r1;
          c = slice_index (width f) c0; d = slice_index (width f) c1
      in \<lparr>height = b - a, width = d - c, pixel_at = (\<lambda>i j. pixel_at f (a + i) (c + j))\<rparr>)"

text \<open>\<open>face.size\<close>: the number of elements of the array.\<close>

definition frame_size :: "frame \<Rightarrow> nat" where
  "frame_size f = height f * width f * 3"

text \<open>\<open>a.argmax()\<close>: the first index of the largest entry; \<open>ValueError\<close> on an empty array.\<close>

fun argmax_loop :: "real list \<Rightarrow> nat \<Rightarrow> nat \<Rightarrow> real \<Rightarrow> nat" where
  "argmax_loop [] i best bv = best"
| "argmax_loop (y # ys) i best bv =
     (if y > bv then argmax_loop ys (Suc i) i y else argmax_loop ys (Suc i) best bv)"

definition argmax :: "real list \<Rightarrow> exn + nat" where
  "argmax xs =
     (case xs of
        [] \<Rightarrow> Inl (ValueError ''attempt to get argmax of an empty sequence'')
      | x # ys \<Rightarrow> Inr (argmax_loop ys 1 0 x))"

text \<open>\<open>LABELS[preds[0].argmax()]\<close>, with the three places where it may raise.\<close>

definition label_of :: "string list \<Rightarrow> real list list \<Rightarrow> exn + string" where
  "label_of labels preds =
     (case py_index preds 0 of
        Inl e \<Rightarrow> Inl e
      | Inr row \<Rightarrow>
         (case argmax row of
            Inl e \<Rightarrow> Inl e
          | Inr i \<Rightarrow> py_index labels i))"

text \<open>
  \<open>net.setInput(blob)\<close> followed by \<open>net.forward()\<close> on a module global; on a
  global that is \<open>None\<close> the attribute access raises.
\<close>

definition run_net :: "'o net option \<Rightarrow> blob \<Rightarrow> (exn + 'o) \<times> 'o net option" where
  "run_net handle b =
     (case handle of
        None \<Rightarrow> (Inl (OtherException ''NoneType object has no attribute setInput''), None)
      | Some n \<Rightarrow> (let n' = setInput b n in (forward n', Some n')))"

type_synonym dict = "string \<rightharpoonup> string"

text \<open>
  Steps 4 and 5 of the pipeline (gender, then age, on one blob), up to the success
  dictionary.
\<close>

definition classify_face :: "world \<Rightarrow> blob \<Rightarrow> (exn + dict option) \<times> world" where
  "classify_face s face_blob =
     (case run_net (gender_net s) face_blob of
        (Inl e, g') \<Rightarrow> (Inl e, s\<lparr>gender_net := g'\<rparr>)
      | (Inr gender_preds, g') \<Rightarrow>
         (let s1 = s\<lparr>gender_net := g'\<rparr> in
          case label_of GENDER_LIST gender_preds of
            Inl e \<Rightarrow> (Inl e, s1)
          | Inr gender \<Rightarrow>
             (case run_net (age_net s1) face_blob of
                (Inl e, a') \<Rightarrow> (Inl e, s1\<lparr>age_net := a'\<rparr>)
              | (Inr age_preds, a') \<Rightarrow>
                 (let s2 = s1\<lparr>age_net := a'\<rparr> in
                  case label_of AGE_BUCKETS age_preds of
                    Inl e \<Rightarrow> (Inl e, s2)
                  | Inr age \<Rightarrow>
                      (Inr (Some [''age'' \<mapsto> age, ''gender'' \<mapsto> gender]), s2)))))"

text \<open>
  The body of the \<open>try\<close> of \<open>predict_age_gender\<close>. \<open>np.frombuffer\<close> only views the
  bytes; \<open>cv2.imdecode\<close> gives \<open>None\<close> for bytes that are no image.
\<close>

definition predict_age_gender_try :: "cv2_lib \<Rightarrow> world \<Rightarrow> byte list \<Rightarrow> (exn + dict option) \<times> world" where
  "predict_age_gender_try cv s image_bytes =
     (case imdecode cv image_bytes of
        Inl e \<Rightarrow> (Inl e, s)
      | Inr None \<Rightarrow> (Inr None, s)
      | Inr (Some frame) \<Rightarrow>
         (let h = int (height frame); w = int (width frame) in
          if h = 0 \<or> w = 0 then (Inr None, s)
          else
            (case find_face cv s frame of
               (Inl e, s1) \<Rightarrow> (Inl e, s1)
             | (Inr None, s1) \<Rightarrow> (Inr (Some [''error'' \<mapsto> ''No face detected'']), s1)
             | (Inr (Some (startX, startY, endX, endY)), s1) \<Rightarrow>
                (let padding = 20;
                     face = crop frame (max 0 (startY - padding)) (min h (endY + padding))
                                       (max 0 (startX - padding)) (min w (endX + padding))
                 in if frame_size face = 0
                    then (Inr (Some [''error'' \<mapsto> ''Failed to extract face region'']), s1)
                    else
                      (case blobFromImage cv face 1.0 (227, 227) MODEL_MEAN_VALUES False of
                         Inl e \<Rightarrow> (Inl e, s1)
                       | Inr face_blob \<Rightarrow> classify_face s1 face_blob)))))"

text \<open>
  The whole function: the guard on the two classifier handles, the \<open>try\<close>, and the two
  \<open>except\<close> clauses (\<open>cv2.error\<close> first, then \<open>Exception\<close>). The result type still has
  room for an exception that leaves the function.
\<close>

definition predict_age_gender :: "cv2_lib \<Rightarrow> world \<Rightarrow> byte list \<Rightarrow> (exn + dict option) \<times> world" where
  "predict_age_gender cv s0 image_bytes =
     (let s = s0\<lparr>pipeline_calls := Suc (pipeline_calls s0)\<rparr> in
      if age_net s = None \<or> gender_net s = None then (Inr None, s)
      else
        (case predict_age_gender_try cv s image_bytes of
           (Inl (Cv2Error m), s') \<Rightarrow>
             (Inr (Some [''error'' \<mapsto> ''OpenCV processing error: '' @ m]), s')
         | (Inl e, s') \<Rightarrow>
             (Inr (Some [''error'' \<mapsto> ''An unexpected server error occurred: '' @ str_exn e]), s')
         | (Inr r, s') \<Rightarrow> (Inr r, s')))"

section \<open>HttpFrontend: \<open>predict\<close> of \<open>main.py\<close>\<close>

text \<open>
  An upload is its file name and what \<open>await file.read()\<close> gives: the bytes, or an
  exception. \<open>file.close()\<close> is taken not to raise.
\<close>

record upload_file =
  filename :: string
  read_file :: "exn + byte list"

record json_response =
  status_code :: nat
  content :: dict

text \<open>\<open>all([face_net, age_net, gender_net])\<close>: a loaded handle is truthy, \<open>None\<close> is not.\<close>

definition models_ready :: "world \<Rightarrow> bool" where
  "models_ready s = (face_net s \<noteq> None \<and> age_net s \<noteq> None \<and> gender_net s \<noteq> None)"

text \<open>
  The first \<open>try\<close>: the \<open>HTTPException\<close> for an empty file is raised inside it, so
  \<open>except Exception\<close> catches it as well and raises the 400 again with another detail.
\<close>

definition read_contents :: "upload_file \<Rightarrow> exn + byte list" where
  "read_contents file =
     (case (case read_file file of
              Inl e \<Rightarrow> Inl e
            | Inr contents \<Rightarrow>
                if contents = [] then Inl (HTTPException 400 ''Empty file received.'')
                else Inr contents) of
        Inl e \<Rightarrow> Inl (HTTPException 400 (''Error reading file: '' @ str_exn e))
      | Inr contents \<Rightarrow> Inr contents)"

text \<open>
  The second \<open>try\<close>: an \<open>HTTPException\<close> raised in it is raised again unchanged, any
  other exception becomes a 500.
\<close>

definition predict_results :: "cv2_lib \<Rightarrow> world \<Rightarrow> byte list \<Rightarrow> (exn + json_response) \<times> world" where
  "predict_results cv s contents =
     (case predict_age_gender cv s contents of
        (Inl e, s') \<Rightarrow> (Inl e, s')
      | (Inr None, s') \<Rightarrow> (Inl (HTTPException 500 ''Prediction failed.''), s')
      | (Inr (Some results), s') \<Rightarrow>
         (case results ''error'' of
            Some err \<Rightarrow>
              if str_in ''No face detected'' err then (Inl (HTTPException 400 err), s')
              else (Inl (HTTPException 500 err), s')
          | None \<Rightarrow>
             (case results ''age'' of
                None \<Rightarrow> (Inr \<lparr>status_code = 200, content = results\<rparr>, s')
              | Some age \<Rightarrow>
                 (case map_age_to_group (str_of age) of
                    Inl e \<Rightarrow> (Inl e, s')
                  | Inr g \<Rightarrow>
                      (Inr \<lparr>status_code = 200, content = results(''age_group'' \<mapsto> g)\<rparr>, s')))))"

definition predict :: "cv2_lib \<Rightarrow> world \<Rightarrow> upload_file \<Rightarrow> (exn + json_response) \<times> world" where
  "predict cv s file =
     (if \<not> models_ready s
      then (Inl (HTTPException 503 ''Models are not loaded, service cannot process requests.''), s)
      else
        (case read_contents file of
           Inl e \<Rightarrow> (Inl e, s)
         | Inr contents \<Rightarrow>
            (case predict_results cv s contents of
               (Inl (HTTPException c d), s') \<Rightarrow> (Inl (HTTPException c d), s')
             | (Inl e, s') \<Rightarrow>
                 (Inl (HTTPException 500 (''An internal error occurred: '' @ str_exn e)), s')
             | (Inr r, s') \<Rightarrow> (Inr r, s'))))"

text \<open>
  The status that the client sees: the framework answers an \<open>HTTPException\<close> with
  its status code and any other exception with 500.
\<close>

fun http_status :: "exn + json_response \<Rightarrow> nat" where
  "http_status (Inl (HTTPException c d)) = c"
| "http_status (Inl e) = 500"
| "http_status (Inr r) = status_code r"

section \<open>RpcFrontend: \<open>ValmikiServicer.Predict\<close> of \<open>grpc_server.py\<close>\<close>

datatype StatusCode =
    OK | CANCELLED | UNKNOWN | INVALID_ARGUMENT | DEADLINE_EXCEEDED | NOT_FOUND
  | ALREADY_EXISTS | PERMISSION_DENIED | RESOURCE_EXHAUSTED | FAILED_PRECONDITION
  | ABORTED | OUT_OF_RANGE | UNIMPLEMENTED | INTERNAL | UNAVAILABLE | DATA_LOSS
  | UNAUTHENTICATED

record predict_request =
  image_data :: "byte list"

record predict_response =
  age_group :: string
  gender :: string
  confidence :: real

record rpc_context =
  code :: StatusCode
  details :: string

text \<open>\<open>valmiki_pb2.PredictResponse()\<close>: every field at its default.\<close>

definition PredictResponse :: predict_response where
  "PredictResponse = \<lparr>age_group = [], gender = [], confidence = 0\<rparr>"

definition set_status :: "StatusCode \<Rightarrow> string \<Rightarrow> rpc_context \<Rightarrow> rpc_context" where
  "set_status c d ctx = ctx\<lparr>code := c, details := d\<rparr>"

text \<open>\<open>d[k]\<close> on a dictionary: \<open>KeyError\<close> for a missing key.\<close>

definition dict_get :: "dict \<Rightarrow> string \<Rightarrow> exn + string" where
  "dict_get d k = (case d k of None \<Rightarrow> Inl (KeyError k) | Some v \<Rightarrow> Inr v)"

text \<open>The success path, lines 50 to 59, inside the \<open>try\<close>.\<close>

definition success_response :: "dict \<Rightarrow> exn + predict_response" where
  "success_response result =
     (case dict_get result ''age'' of
        Inl e \<Rightarrow> Inl e
      | Inr age \<Rightarrow>
         (case map_age_to_group (str_of age) of
            Inl e \<Rightarrow> Inl e
          | Inr g \<Rightarrow>
             (case dict_get result ''gender'' of
                Inl e \<Rightarrow> Inl e
              | Inr gen \<Rightarrow>
                  Inr \<lparr>age_group = g, gender = py_lower gen, confidence = 0.95\<rparr>)))"

definition Predict :: "cv2_lib \<Rightarrow> world \<Rightarrow> predict_request \<Rightarrow> rpc_context \<Rightarrow> predict_response \<times> rpc_context \<times> world" where
  "Predict cv s request ctx =
     (if image_data request = []
      then (PredictResponse, set_status INVALID_ARGUMENT ''Empty image data'' ctx, s)
      else
        (case predict_age_gender cv s (image_data request) of
           (Inl e, s') \<Rightarrow>
             (PredictResponse, set_status INTERNAL (''Internal server error: '' @ str_exn e) ctx, s')
         | (Inr None, s') \<Rightarrow>
             (PredictResponse, set_status INTERNAL ''Prediction failed'' ctx, s')
         | (Inr (Some result), s') \<Rightarrow>
            (case result ''error'' of
               Some err \<Rightarrow>
                 if str_in ''No face detected'' err
                 then (PredictResponse, set_status FAILED_PRECONDITION err ctx, s')
                 else (PredictResponse, set_status INTERNAL err ctx, s')
             | None \<Rightarrow>
                (case success_response result of
                   Inl e \<Rightarrow>
                     (PredictResponse,
                      set_status INTERNAL (''Internal server error: '' @ str_exn e) ctx, s')
                 | Inr resp \<Rightarrow> (resp, ctx, s')))))"

section \<open>The specification's reading of the age mapping\<close>

text \<open>
  The specification's words for the mapper, kept apart from the code: the first numeric
  bound of a bucket is what stands left of the first \<open>-\<close> once the surrounding
  parentheses are stripped, parsed as an integer; the category follows the thresholds on
  it, and a bound that does not parse gives \<open>adult\<close>.
\<close>

definition spec_first_bound :: "py_str \<Rightarrow> int option" where
  "spec_first_bound s =
     (case py_int (takeWhile (\<lambda>c. c \<noteq> of_char CHR ''-'') (py_strip (set (str_of ''()'')) s)) of
        Inl e \<Rightarrow> None
      | Inr n \<Rightarrow> Some n)"

definition spec_age_group :: "int option \<Rightarrow> string" where
  "spec_age_group b =
     (case b of
        None \<Rightarrow> ''adult''
      | Some n \<Rightarrow>
          if n < 13 then ''child'' else if n < 20 then ''teen''
          else if n < 35 then ''young_adult'' else if n < 50 then ''adult'' else ''senior'')"

section \<open>The box invariant and concrete inputs\<close>

text \<open>A box lies inside an image of width \<open>w\<close> and height \<open>h\<close> and has positive area.\<close>

definition box_ok :: "int \<Rightarrow> int \<Rightarrow> box \<Rightarrow> bool" where
  "box_ok w h b =
     (case b of (startX, startY, endX, endY) \<Rightarrow>
        0 \<le> startX \<and> startX < endX \<and> endX \<le> w - 1 \<and>
        0 \<le> startY \<and> startY < endY \<and> endY \<le> h - 1)"

text \<open>
  A small engine on which the functions can be run: the decoder accepts one byte string
  and gives a black image of 100 by 100 pixels, and a net with constant weights returns
  the same output for every blob.
\<close>

definition ex_frame :: frame where
  "ex_frame = \<lparr>height = 100, width = 100, pixel_at = (\<lambda>i j. (0, 0, 0))\<rparr>"

definition ex_image :: "byte list" where
  "ex_image = [0xFF, 0xD8]"

definition ex_garbage :: "byte list" where
  "ex_garbage = [0x00]"

definition ex_cv :: cv2_lib where
  "ex_cv = \<lparr>imdecode = (\<lambda>bs. if bs = [0xFF, 0xD8] then Inr (Some ex_frame) else Inr None),
            blobFromImage = (\<lambda>f scale sz mean swapRB. Inr (Blob [1, 3, fst sz, snd sz] []))\<rparr>"

definition ex_net :: "'o \<Rightarrow> 'o net" where
  "ex_net out = \<lparr>net_input = None, net_weights = (\<lambda>b. Inr out)\<rparr>"

definition ex_face :: detection where
  "ex_face = \<lparr>det_conf = 0.875, det_x1 = 0.25, det_y1 = 0.25, det_x2 = 0.75, det_y2 = 0.75\<rparr>"

definition ex_face_low :: detection where
  "ex_face_low = \<lparr>det_conf = 0.625, det_x1 = 0.25, det_y1 = 0.25, det_x2 = 0.75, det_y2 = 0.75\<rparr>"

definition ex_flat_high :: detection where
  "ex_flat_high = \<lparr>det_conf = 0.875, det_x1 = 0.5, det_y1 = 0.5, det_x2 = 0.5, det_y2 = 0.5\<rparr>"

definition ex_world :: world where
  "ex_world = \<lparr>face_net = Some (ex_net [ex_face]),
               age_net = Some (ex_net [[0, 0, 0, 0, 1, 0, 0, 0]]),
               gender_net = Some (ex_net [[0.25, 0.75]]),
               pipeline_calls = 0\<rparr>"

definition ex_world_unloaded :: world where
  "ex_world_unloaded = \<lparr>face_net = None, age_net = None, gender_net = None, pipeline_calls = 0\<rparr>"

definition ex_world_no_face_net :: world where
  "ex_world_no_face_net = ex_world\<lparr>face_net := None\<rparr>"

definition ex_faint :: detection where
  "ex_faint = \<lparr>det_conf = 0.5, det_x1 = 0.25, det_y1 = 0.25, det_x2 = 0.75, det_y2 = 0.75\<rparr>"

definition ex_world_no_detection :: world where
  "ex_world_no_detection = ex_world\<lparr>face_net := Some (ex_net [ex_faint])\<rparr>"

definition ex_world_flat_last :: world where
  "ex_world_flat_last = ex_world\<lparr>face_net := Some (ex_net [ex_face_low, ex_flat_high])\<rparr>"

definition ex_ctx :: rpc_context where
  "ex_ctx = \<lparr>code = OK, details = []\<rparr>"

text \<open>
  Two states of the module globals hold the same models: the same handles are loaded,
  with the same weights. The blob that an earlier call left in a net and the ghost
  counter may differ.
\<close>

definition same_models :: "world \<Rightarrow> world \<Rightarrow> bool" where
  "same_models s t =
     (map_option net_weights (face_net s) = map_option net_weights (face_net t) \<and>
      map_option net_weights (age_net s) = map_option net_weights (age_net t) \<and>
      map_option net_weights (gender_net s) = map_option net_weights (gender_net t))"

definition ex_world_used :: world where
  "ex_world_used =
     ex_world\<lparr>gender_net := Some ((ex_net [[0.25, 0.75]])\<lparr>net_input := Some (Blob [1] [5])\<rparr>),
              pipeline_calls := 7\<rparr>"

definition ex_upload :: "exn + byte list \<Rightarrow> upload_file" where
  "ex_upload r = \<lparr>filename = ''face.jpg'', read_file = r\<rparr>"

definition ex_cv_failing :: cv2_lib where
  "ex_cv_failing = ex_cv\<lparr>imdecode := (\<lambda>bs. Inl (Cv2Error ''imdecode failed''))\<rparr>"


section \<open>Properties of the age mapping\<close>

lemma py_split_first: "\<exists>ps. py_split sep s = takeWhile (\<lambda>c. c \<noteq> sep) s # ps"
  by (induction s) auto

lemma py_index_split_0:
  "py_index (py_split sep s) 0 = Inr (takeWhile (\<lambda>c. c \<noteq> sep) s)"
proof -
  obtain ps where "py_split sep s = takeWhile (\<lambda>c. c \<noteq> sep) s # ps"
    using py_split_first [of sep s] by blast
  then show ?thesis by (simp add: py_index_def)
qed

lemma py_int_raises_ValueError: "py_int p = Inl e \<Longrightarrow> \<exists>m. e = ValueError m"
  by (auto simp: py_int_def Let_def split: option.splits prod.splits if_splits)

lemma map_age_to_group_spec: "map_age_to_group s = Inr (spec_age_group (spec_first_bound s))"
proof (cases "py_int (takeWhile (\<lambda>c. c \<noteq> of_char CHR ''-'') (py_strip (set (str_of ''()'')) s))")
  case (Inl e)
  then obtain m where "e = ValueError m" using py_int_raises_ValueError by blast
  with Inl show ?thesis
    by (simp add: map_age_to_group_def map_age_to_group_try_def py_index_split_0
        spec_first_bound_def spec_age_group_def)
next
  case (Inr n)
  then show ?thesis
    by (simp add: map_age_to_group_def map_age_to_group_try_def py_index_split_0
        spec_first_bound_def spec_age_group_def)
qed

lemma spec_age_group_range:
  "spec_age_group b \<in> {''child'', ''teen'', ''young_adult'', ''adult'', ''senior''}"
  by (simp add: spec_age_group_def split: option.splits)

lemmas age_eval =
  map_age_to_group_def map_age_to_group_try_def py_strip_def py_index_def py_int_def
  digit_val_def Py_ISSPACE_def str_of_def int_max_str_digits_def Py_UNICODE_ISSPACE_def
  Py_UNICODE_TODECIMAL_def decimal_zeros_def

text \<open>
  Claim C2. \<open>map_age_to_group\<close> is total: on every \<open>str\<close> it returns, without raising,
  one of the five categories, and the category is the one that the thresholds
  (below 13 child, below 20 teen, below 35 young adult, below 50 adult, else senior) give
  for the parsed first bound of the bucket, \<open>adult\<close> when the bound does not parse. The
  six buckets of the specification and the string \<open>garbage\<close> map as the specification
  lists them.
\<close>

theorem map_age_to_group_total:
  "map_age_to_group s \<in> Inr ` {''child'', ''teen'', ''young_adult'', ''adult'', ''senior''}
   \<and> map_age_to_group s = Inr (spec_age_group (spec_first_bound s))
   \<and> map_age_to_group (str_of ''(0-2)'') = Inr ''child''
   \<and> map_age_to_group (str_of ''(4-6)'') = Inr ''child''
   \<and> map_age_to_group (str_of ''(15-20)'') = Inr ''teen''
   \<and> map_age_to_group (str_of ''(25-32)'') = Inr ''young_adult''
   \<and> map_age_to_group (str_of ''(38-43)'') = Inr ''adult''
   \<and> map_age_to_group (str_of ''(60-100)'') = Inr ''senior''
   \<and> map_age_to_group (str_of ''garbage'') = Inr ''adult''"
proof -
  have total: "map_age_to_group s \<in> Inr ` {''child'', ''teen'', ''young_adult'', ''adult'', ''senior''}"
    unfolding map_age_to_group_spec using spec_age_group_range by blast
  have e1: "map_age_to_group (str_of ''(0-2)'') = Inr ''child''" by (simp add: age_eval)
  have e2: "map_age_to_group (str_of ''(4-6)'') = Inr ''child''" by (simp add: age_eval)
  have e3: "map_age_to_group (str_of ''(15-20)'') = Inr ''teen''" by (simp add: age_eval)
  have e4: "map_age_to_group (str_of ''(25-32)'') = Inr ''young_adult''" by (simp add: age_eval)
  have e5: "map_age_to_group (str_of ''(38-43)'') = Inr ''adult''" by (simp add: age_eval)
  have e6: "map_age_to_group (str_of ''(60-100)'') = Inr ''senior''" by (simp add: age_eval)
  have e7: "map_age_to_group (str_of ''garbage'') = Inr ''adult''" by (simp add: age_eval)
  from total map_age_to_group_spec e1 e2 e3 e4 e5 e6 e7 show ?thesis by blast
qed

subsection \<open>Inputs on which \<open>int\<close> is particular\<close>

text \<open>
  A separator such as \<open>0x1F\<close> is no white space for \<open>int\<close>, a no-break space is; digits
  of other scripts count as digits; blanks around the number and an underscore between
  digits are accepted.
\<close>

lemma map_age_to_group_unicode:
  "map_age_to_group (0x1F # str_of ''15-20'') = Inr ''adult''"
  "map_age_to_group (0xA0 # str_of ''15-20'') = Inr ''teen''"
  "map_age_to_group (0x85 # str_of ''60'' @ [0x3000]) = Inr ''senior''"
  "map_age_to_group [0x663] = Inr ''child''"
  "map_age_to_group [0x1D7D2, 0xFF15] = Inr ''adult''"
  "map_age_to_group [0xB2] = Inr ''adult''"
  "map_age_to_group (str_of ''( 1_5 -20)'') = Inr ''teen''"
  "map_age_to_group (str_of ''(1__5-20)'') = Inr ''adult''"
  by (simp_all add: age_eval)

lemma transform_ones:
  "transform_decimal_and_space_to_ascii (replicate k 0x31) = replicate k 0x31"
  by (induction k) simp_all

lemma parse_digits_ones:
  "\<exists>v. parse_digits acc n prev (replicate (Suc k) 0x31) = Some (v, n + Suc k)"
proof (induction k arbitrary: acc n prev)
  case 0
  show ?case by (simp add: digit_val_def)
next
  case (Suc k)
  from Suc [of "10 * acc + 1" "Suc n" True] show ?case
    by (simp add: digit_val_def)
qed

lemma py_int_digit_limit:
  assumes "int_max_str_digits < k"
  shows "py_int (replicate k 0x31) =
           Inl (ValueError ''Exceeds the limit (4300 digits) for integer string conversion'')"
proof -
  from assms obtain j where k: "k = Suc j" by (cases k) auto
  obtain v where p: "parse_digits 0 0 False (replicate (Suc j) 0x31) = Some (v, 0 + Suc j)"
    using parse_digits_ones by blast
  then have p': "parse_digits 1 (Suc 0) True (replicate j 0x31) = Some (v, Suc j)"
    by (simp add: digit_val_def)
  have "py_strip Py_ISSPACE (replicate (Suc j) 0x31) = replicate (Suc j) (0x31::nat)"
    by (simp add: py_strip_def Py_ISSPACE_def dropWhile_replicate del: replicate_Suc)
  then have s: "py_strip Py_ISSPACE (replicate (Suc j) 0x31) = 0x31 # replicate j (0x31::nat)"
    by simp
  have "py_int (replicate (Suc j) 0x31) =
           Inl (ValueError ''Exceeds the limit (4300 digits) for integer string conversion'')"
    using p' assms [unfolded k]
    by (simp add: py_int_def transform_ones s digit_val_def del: replicate_Suc)
  then show ?thesis by (simp only: k)
qed

text \<open>A number of more than 4300 digits does not parse and falls back to \<open>adult\<close>.\<close>

lemma map_age_to_group_digit_limit:
  assumes "4300 < k"
  shows "map_age_to_group (replicate k 0x31) = Inr ''adult''"
proof -
  have "py_strip (set (str_of ''()'')) (replicate k 0x31) = replicate k (0x31::nat)"
    by (simp add: py_strip_def str_of_def dropWhile_replicate)
  moreover have "takeWhile (\<lambda>c. c \<noteq> of_char CHR ''-'') (replicate k 0x31) = replicate k (0x31::nat)"
    by (simp add: takeWhile_replicate)
  moreover have "int_max_str_digits < k"
    using assms by (simp add: int_max_str_digits_def)
  ultimately have "spec_first_bound (replicate k 0x31) = None"
    by (simp add: spec_first_bound_def py_int_digit_limit)
  then show ?thesis
    by (simp add: map_age_to_group_spec spec_age_group_def)
qed

section \<open>Properties of the pipeline\<close>

lemma py_index_mem: "py_index xs i = Inr x \<Longrightarrow> x \<in> set xs"
  by (auto simp: py_index_def split: if_splits)

lemma label_of_mem: "label_of labels preds = Inr l \<Longrightarrow> l \<in> set labels"
  by (auto simp: label_of_def split: sum.splits dest: py_index_mem)

lemma classify_face_success:
  "classify_face s b = (Inr (Some d), s') \<Longrightarrow>
     \<exists>a g. d = [''age'' \<mapsto> a, ''gender'' \<mapsto> g] \<and> a \<in> set AGE_BUCKETS \<and> g \<in> set GENDER_LIST"
  by (auto simp: classify_face_def Let_def split: sum.splits prod.splits dest: label_of_mem)

text \<open>The loop keeps the invariant: whatever box it holds lies inside the image.\<close>

lemma find_face_loop_box:
  "fst (find_face_loop w h ds (best, m)) = Some b \<Longrightarrow>
   (\<And>b0. best = Some b0 \<Longrightarrow> box_ok w h b0) \<Longrightarrow> box_ok w h b"
proof (induction ds arbitrary: best m)
  case Nil
  then show ?case by simp
next
  case (Cons d ds)
  show ?case
  proof (cases "det_conf d > FACE_CONFIDENCE_THRESHOLD \<and> det_conf d > m")
    case False
    with Cons.prems(1) have "fst (find_face_loop w h ds (best, m)) = Some b" by auto
    then show ?thesis using Cons.IH Cons.prems(2) by blast
  next
    case True
    define startX where "startX = max 0 (astype_int (det_x1 d * real_of_int w))"
    define startY where "startY = max 0 (astype_int (det_y1 d * real_of_int h))"
    define endX where "endX = min (w - 1) (astype_int (det_x2 d * real_of_int w))"
    define endY where "endY = min (h - 1) (astype_int (det_y2 d * real_of_int h))"
    define best' where
      "best' = (if endX > startX \<and> endY > startY then Some (startX, startY, endX, endY) else best)"
    have run: "fst (find_face_loop w h ds (best', det_conf d)) = Some b"
      using Cons.prems(1) True unfolding best'_def startX_def startY_def endX_def endY_def
      by (simp only: find_face_loop.simps Let_def simp_thms if_True)
    have "box_ok w h b0" if "best' = Some b0" for b0
    proof (cases "endX > startX \<and> endY > startY")
      case True
      with that have "b0 = (startX, startY, endX, endY)" by (simp add: best'_def)
      moreover have "0 \<le> startX" "0 \<le> startY" "endX \<le> w - 1" "endY \<le> h - 1"
        unfolding startX_def startY_def endX_def endY_def
        by (rule max.cobounded1, rule max.cobounded1, rule min.cobounded1, rule min.cobounded1)
      ultimately show ?thesis using True
        by (simp add: box_ok_def)
    next
      case False
      with that have "best = Some b0" by (auto simp: best'_def)
      then show ?thesis using Cons.prems(2) by blast
    qed
    with run show ?thesis using Cons.IH by blast
  qed
qed

lemma find_face_box:
  assumes "fst (find_face cv s fr) = Inr (Some b)"
  shows "box_ok (int (width fr)) (int (height fr)) b"
proof -
  from assms obtain ds where
    "fst (find_face_loop (int (width fr)) (int (height fr)) ds (None, 0)) = Some b"
    by (auto simp: find_face_def Let_def split: option.splits sum.splits)
  then show ?thesis using find_face_loop_box by blast
qed

lemma crop_nonempty:
  assumes "box_ok (int (width fr)) (int (height fr)) (startX, startY, endX, endY)"
  shows "frame_size (crop fr (max 0 (startY - 20)) (min (int (height fr)) (endY + 20))
                       (max 0 (startX - 20)) (min (int (width fr)) (endX + 20))) \<noteq> 0"
proof -
  have r: "slice_index (height fr) (max 0 (startY - 20))
           < slice_index (height fr) (min (int (height fr)) (endY + 20))"
    using assms by (auto simp: box_ok_def slice_index_def)
  have c: "slice_index (width fr) (max 0 (startX - 20))
           < slice_index (width fr) (min (int (width fr)) (endX + 20))"
    using assms by (auto simp: box_ok_def slice_index_def)
  from r c show ?thesis by (simp add: frame_size_def crop_def Let_def)
qed

text \<open>
  What the body of the \<open>try\<close> can return as a dictionary: the no-face error, or a
  success with both labels taken from the two fixed lists.
\<close>

lemma try_dict_shape:
  assumes "predict_age_gender_try cv s bs = (Inr (Some d), s')"
  shows "d = [''error'' \<mapsto> ''No face detected''] \<or>
         (\<exists>a g. d = [''age'' \<mapsto> a, ''gender'' \<mapsto> g] \<and> a \<in> set AGE_BUCKETS \<and> g \<in> set GENDER_LIST)"
proof (cases "imdecode cv bs")
  case (Inl e)
  with assms show ?thesis by (simp add: predict_age_gender_try_def)
next
  case (Inr fo)
  show ?thesis
  proof (cases fo)
    case None
    with Inr assms show ?thesis by (simp add: predict_age_gender_try_def)
  next
    case (Some fr)
    show ?thesis
    proof (cases "find_face cv s fr")
      case (Pair r s1)
      show ?thesis
      proof (cases r)
        case (Inl e)
        with assms Inr Some Pair show ?thesis
          by (simp add: predict_age_gender_try_def Let_def split: if_splits)
      next
        case r: (Inr bo)
        show ?thesis
        proof (cases bo)
          case None
          with assms Inr Some Pair r show ?thesis
            by (auto simp: predict_age_gender_try_def Let_def split: if_splits)
        next
          case b: (Some bx)
          obtain startX startY endX endY where bx: "bx = (startX, startY, endX, endY)"
            by (cases bx) auto
          define face where
            "face = crop fr (max 0 (startY - 20)) (min (int (height fr)) (endY + 20))
                            (max 0 (startX - 20)) (min (int (width fr)) (endX + 20))"
          from Pair r b bx
          have "fst (find_face cv s fr) = Inr (Some (startX, startY, endX, endY))"
            by simp
          then have "box_ok (int (width fr)) (int (height fr)) (startX, startY, endX, endY)"
            by (rule find_face_box)
          then have ne: "frame_size face \<noteq> 0"
            unfolding face_def by (rule crop_nonempty)
          from assms Inr Some Pair r b bx ne
          have run: "(case blobFromImage cv face 1.0 (227, 227) MODEL_MEAN_VALUES False of
                        Inl e \<Rightarrow> (Inl e, s1)
                      | Inr face_blob \<Rightarrow> classify_face s1 face_blob) = (Inr (Some d), s')"
            by (simp add: predict_age_gender_try_def Let_def face_def split: if_splits)
          then obtain fb where "classify_face s1 fb = (Inr (Some d), s')"
            by (auto split: sum.splits)
          then show ?thesis
            using classify_face_success by blast
        qed
      qed
    qed
  qed
qed

lemma predict_dict_shape:
  assumes "fst (predict_age_gender cv s bs) = Inr (Some d)"
  shows "(\<exists>m. d = [''error'' \<mapsto> ''OpenCV processing error: '' @ m]) \<or>
         (\<exists>m. d = [''error'' \<mapsto> ''An unexpected server error occurred: '' @ m]) \<or>
         d = [''error'' \<mapsto> ''No face detected''] \<or>
         (\<exists>a g. d = [''age'' \<mapsto> a, ''gender'' \<mapsto> g] \<and> a \<in> set AGE_BUCKETS \<and> g \<in> set GENDER_LIST)"
proof -
  define s1 where "s1 = s\<lparr>pipeline_calls := Suc (pipeline_calls s)\<rparr>"
  obtain r s' where run: "predict_age_gender_try cv s1 bs = (r, s')"
    by (cases "predict_age_gender_try cv s1 bs") auto
  show ?thesis
  proof (cases r)
    case (Inl e)
    with assms run show ?thesis
      by (cases e) (auto simp: predict_age_gender_def Let_def s1_def split: if_splits)
  next
    case (Inr ro)
    with assms run have "predict_age_gender_try cv s1 bs = (Inr (Some d), s')"
      by (auto simp: predict_age_gender_def Let_def s1_def split: if_splits)
    then show ?thesis using try_dict_shape by blast
  qed
qed

lemma predict_success_shape:
  assumes "fst (predict_age_gender cv s bs) = Inr (Some d)" and "d ''error'' = None"
  shows "\<exists>a g. d = [''age'' \<mapsto> a, ''gender'' \<mapsto> g] \<and> a \<in> set AGE_BUCKETS \<and> g \<in> set GENDER_LIST"
  using predict_dict_shape [OF assms(1)] assms(2) by auto

subsection \<open>Running the functions on the concrete inputs\<close>

lemmas ex_defs =
  ex_world_def ex_cv_def ex_net_def ex_face_def ex_frame_def ex_image_def ex_garbage_def
  ex_world_unloaded_def ex_world_no_face_net_def ex_world_no_detection_def
  ex_world_flat_last_def ex_face_low_def ex_flat_high_def ex_ctx_def ex_faint_def

lemmas run_defs =
  predict_age_gender_def predict_age_gender_try_def find_face_def classify_face_def
  run_net_def setInput_def forward_def label_of_def argmax_def crop_def slice_index_def
  frame_size_def astype_int_def FACE_CONFIDENCE_THRESHOLD_def AGE_BUCKETS_def GENDER_LIST_def
  Let_def

lemma ex_find: "fst (find_face ex_cv ex_world ex_frame) = Inr (Some (25, 25, 75, 75))"
  by (simp add: ex_defs run_defs)

lemma ex_run:
  "fst (predict_age_gender ex_cv ex_world ex_image) =
     Inr (Some [''age'' \<mapsto> ''(25-32)'', ''gender'' \<mapsto> ''Female''])"
  by (simp add: ex_defs run_defs py_index_def)

lemma ex_run_garbage: "fst (predict_age_gender ex_cv ex_world ex_garbage) = Inr None"
  by (simp add: ex_defs run_defs)

lemma ex_run_no_face_net:
  "fst (predict_age_gender ex_cv ex_world_no_face_net ex_image) =
     Inr (Some [''error'' \<mapsto> ''No face detected''])"
  by (simp add: ex_defs run_defs)

lemma ex_run_no_detection:
  "fst (predict_age_gender ex_cv ex_world_no_detection ex_image) =
     Inr (Some [''error'' \<mapsto> ''No face detected''])"
  by (simp add: ex_defs run_defs)

subsection \<open>The claims about the pipeline\<close>

text \<open>
  Claim C1, at the input where the code departs from it. The detector reports two
  detections on an image of 100 by 100 pixels: first one of confidence 0.625 whose box
  is (25, 25, 75, 75), then one of confidence 0.875 whose clipped box (50, 50, 50, 50) has
  no area. The detection of the highest confidence above the threshold is the second one,
  and alone it gives no box; yet \<open>_find_face\<close> returns the box of the first, because the
  loop raises \<open>max_confidence\<close> before it tests the area and leaves \<open>best_face_box\<close> as
  it was.
\<close>

theorem find_face_returns_box_of_lower_confidence:
  "det_conf ex_face_low < det_conf ex_flat_high
   \<and> fst (find_face_loop 100 100 [ex_flat_high] (None, 0)) = None
   \<and> fst (find_face_loop 100 100 [ex_face_low] (None, 0)) = Some (25, 25, 75, 75)
   \<and> find_face_loop 100 100 [ex_face_low, ex_flat_high] (None, 0) = (Some (25, 25, 75, 75), 0.875)
   \<and> fst (find_face ex_cv ex_world_flat_last ex_frame) = Inr (Some (25, 25, 75, 75))"
  by (simp add: ex_defs run_defs)

text \<open>
  Claim C6. For every byte input, every engine and every state of the model handles,
  \<open>predict_age_gender\<close> returns a value (a dictionary or \<open>None\<close>): no exception of the
  decoder, the nets, the indexing or the arg-max leaves the function.
\<close>

theorem predict_age_gender_never_raises:
  "\<exists>r. fst (predict_age_gender cv s image_bytes) = Inr r"
  by (auto simp: predict_age_gender_def Let_def split: prod.splits sum.splits exn.splits)

text \<open>
  Claim C10. Every box that \<open>_find_face\<close> returns satisfies
  \<open>0 \<le> startX < endX \<le> w - 1\<close> and \<open>0 \<le> startY < endY \<le> h - 1\<close>, the crop padded by 20
  pixels around it is not empty, and so no dictionary that \<open>predict_age_gender\<close> returns
  carries the error \<open>Failed to extract face region\<close>.
\<close>

theorem failed_to_extract_unreachable:
  "(fst (find_face cv s fr) = Inr (Some (startX, startY, endX, endY)) \<longrightarrow>
      0 \<le> startX \<and> startX < endX \<and> endX \<le> int (width fr) - 1 \<and>
      0 \<le> startY \<and> startY < endY \<and> endY \<le> int (height fr) - 1 \<and>
      frame_size (crop fr (max 0 (startY - 20)) (min (int (height fr)) (endY + 20))
                          (max 0 (startX - 20)) (min (int (width fr)) (endX + 20))) \<noteq> 0)
   \<and> (fst (predict_age_gender cv s image_bytes) = Inr (Some d) \<longrightarrow>
        d ''error'' \<noteq> Some ''Failed to extract face region'')"
proof (intro conjI impI)
  assume "fst (predict_age_gender cv s image_bytes) = Inr (Some d)"
  from predict_dict_shape [OF this]
  show "d ''error'' \<noteq> Some ''Failed to extract face region''" by auto
next
  assume "fst (find_face cv s fr) = Inr (Some (startX, startY, endX, endY))"
  then have ok: "box_ok (int (width fr)) (int (height fr)) (startX, startY, endX, endY)"
    by (rule find_face_box)
  from ok show "0 \<le> startX" "startX < endX" "endX \<le> int (width fr) - 1"
    "0 \<le> startY" "startY < endY" "endY \<le> int (height fr) - 1"
    by (simp_all add: box_ok_def)
  from ok show "frame_size (crop fr (max 0 (startY - 20)) (min (int (height fr)) (endY + 20))
                          (max 0 (startX - 20)) (min (int (width fr)) (endX + 20))) \<noteq> 0"
    by (rule crop_nonempty)
qed

theorem failed_to_extract_unreachable_witness:
  "fst (find_face ex_cv ex_world ex_frame) = Inr (Some (25, 25, 75, 75))
   \<and> frame_size (crop ex_frame 5 95 5 95) \<noteq> 0
   \<and> fst (predict_age_gender ex_cv ex_world ex_image) =
        Inr (Some [''age'' \<mapsto> ''(25-32)'', ''gender'' \<mapsto> ''Female''])
   \<and> [''age'' \<mapsto> ''(25-32)'', ''gender'' \<mapsto> ''Female''] ''error''
        \<noteq> Some ''Failed to extract face region''"
  using failed_to_extract_unreachable [where cv = ex_cv and s = ex_world and fr = ex_frame
      and startX = 25 and startY = 25 and endX = 75 and endY = 75 and image_bytes = ex_image
      and d = "[''age'' \<mapsto> ''(25-32)'', ''gender'' \<mapsto> ''Female'']"]
    ex_find ex_run
  by (simp add: ex_frame_def)

section \<open>Properties of the two frontends\<close>

lemma read_contents_cases:
  "read_contents file =
     (case read_file file of
        Inl e \<Rightarrow> Inl (HTTPException 400 (''Error reading file: '' @ str_exn e))
      | Inr contents \<Rightarrow>
          if contents = []
          then Inl (HTTPException 400 (''Error reading file: '' @ str_exn (HTTPException 400 ''Empty file received.'')))
          else Inr contents)"
  by (simp add: read_contents_def split: sum.splits)

lemma predict_not_ready:
  "\<not> models_ready s \<Longrightarrow>
   predict cv s file =
     (Inl (HTTPException 503 ''Models are not loaded, service cannot process requests.''), s)"
  by (simp add: predict_def)

lemma predict_unreadable:
  "models_ready s \<Longrightarrow> read_file file = Inl e \<Longrightarrow>
   predict cv s file = (Inl (HTTPException 400 (''Error reading file: '' @ str_exn e)), s)"
  by (simp add: predict_def read_contents_cases)

lemma predict_empty:
  "models_ready s \<Longrightarrow> read_file file = Inr [] \<Longrightarrow>
   predict cv s file =
     (Inl (HTTPException 400 (''Error reading file: '' @ str_exn (HTTPException 400 ''Empty file received.''))), s)"
  by (simp add: predict_def read_contents_cases)

lemma predict_nonempty:
  "models_ready s \<Longrightarrow> read_file file = Inr contents \<Longrightarrow> contents \<noteq> [] \<Longrightarrow>
   predict cv s file =
     (case predict_results cv s contents of
        (Inl (HTTPException c d), s') \<Rightarrow> (Inl (HTTPException c d), s')
      | (Inl e, s') \<Rightarrow> (Inl (HTTPException 500 (''An internal error occurred: '' @ str_exn e)), s')
      | (Inr r, s') \<Rightarrow> (Inr r, s'))"
  by (simp add: predict_def read_contents_cases)

lemma predict_results_None:
  "fst (predict_age_gender cv s contents) = Inr None \<Longrightarrow>
   fst (predict_results cv s contents) = Inl (HTTPException 500 ''Prediction failed.'')"
  by (cases "predict_age_gender cv s contents") (simp add: predict_results_def)

lemma predict_results_error:
  "fst (predict_age_gender cv s contents) = Inr (Some d) \<Longrightarrow> d ''error'' = Some err \<Longrightarrow>
   fst (predict_results cv s contents) =
     Inl (HTTPException (if str_in ''No face detected'' err then 400 else 500) err)"
  by (cases "predict_age_gender cv s contents") (simp add: predict_results_def)

lemma predict_results_success:
  assumes "fst (predict_age_gender cv s contents) = Inr (Some d)" and "d ''error'' = None"
  shows "\<exists>age gen g. d = [''age'' \<mapsto> age, ''gender'' \<mapsto> gen] \<and> age \<in> set AGE_BUCKETS \<and>
           gen \<in> set GENDER_LIST \<and> map_age_to_group (str_of age) = Inr g \<and>
           fst (predict_results cv s contents) =
             Inr \<lparr>status_code = 200,
                  content = [''age'' \<mapsto> age, ''gender'' \<mapsto> gen, ''age_group'' \<mapsto> g]\<rparr>"
proof -
  from predict_success_shape [OF assms] obtain age gen where
    d: "d = [''age'' \<mapsto> age, ''gender'' \<mapsto> gen]" and mem: "age \<in> set AGE_BUCKETS" "gen \<in> set GENDER_LIST"
    by blast
  define g where "g = spec_age_group (spec_first_bound (str_of age))"
  have g: "map_age_to_group (str_of age) = Inr g"
    by (simp add: g_def map_age_to_group_spec)
  from assms(1) d g
  have "fst (predict_results cv s contents) =
          Inr \<lparr>status_code = 200, content = [''age'' \<mapsto> age, ''gender'' \<mapsto> gen, ''age_group'' \<mapsto> g]\<rparr>"
    by (cases "predict_age_gender cv s contents") (simp add: predict_results_def)
  with d mem g show ?thesis by blast
qed

lemma fst_predict_nonempty:
  assumes "models_ready s" "read_file file = Inr contents" "contents \<noteq> []"
  shows "fst (predict_results cv s contents) = Inl (HTTPException c d) \<Longrightarrow>
           fst (predict cv s file) = Inl (HTTPException c d)"
    and "fst (predict_results cv s contents) = Inr r \<Longrightarrow> fst (predict cv s file) = Inr r"
  by (cases "predict_results cv s contents"; simp add: predict_nonempty [OF assms])+

lemma imdecode_None:
  "age_net s \<noteq> None \<Longrightarrow> gender_net s \<noteq> None \<Longrightarrow> imdecode cv bs = Inr None \<Longrightarrow>
   fst (predict_age_gender cv s bs) = Inr None"
  by (simp add: predict_age_gender_def predict_age_gender_try_def Let_def)

lemma imdecode_zero_dim:
  "age_net s \<noteq> None \<Longrightarrow> gender_net s \<noteq> None \<Longrightarrow> imdecode cv bs = Inr (Some fr) \<Longrightarrow>
   height fr = 0 \<or> width fr = 0 \<Longrightarrow>
   fst (predict_age_gender cv s bs) = Inr None"
  by (auto simp: predict_age_gender_def predict_age_gender_try_def Let_def)

text \<open>
  Claim C4, amended. With the models ready, \<open>POST /predict\<close> answers 400 when the upload
  cannot be read, when it is empty, and when the pipeline reports an error that contains
  \<open>No face detected\<close>; it answers 500 for any other pipeline error and when the pipeline
  returns no result, which is what happens for bytes that the decoder does not accept as
  an image and for an image with a zero dimension; on success it answers 200 with the
  bucket that the pipeline predicted (one of the eight) as \<open>age\<close>, the label that it
  predicted (\<open>Male\<close> or \<open>Female\<close>) as \<open>gender\<close>, and \<open>map_age_to_group\<close> of that bucket
  as \<open>age_group\<close>.
\<close>

theorem http_predict_status:
  assumes "models_ready s"
  shows
    "(read_file upload = Inl e \<longrightarrow> http_status (fst (predict cv s upload)) = 400)
     \<and> (read_file upload = Inr [] \<longrightarrow> http_status (fst (predict cv s upload)) = 400)
     \<and> (read_file upload = Inr contents \<and> contents \<noteq> [] \<longrightarrow>
          (fst (predict_age_gender cv s contents) = Inr (Some d) \<and> d ''error'' = Some err \<and>
             str_in ''No face detected'' err \<longrightarrow> http_status (fst (predict cv s upload)) = 400)
          \<and> (fst (predict_age_gender cv s contents) = Inr (Some d) \<and> d ''error'' = Some err \<and>
             \<not> str_in ''No face detected'' err \<longrightarrow> http_status (fst (predict cv s upload)) = 500)
          \<and> (fst (predict_age_gender cv s contents) = Inr None \<longrightarrow>
               http_status (fst (predict cv s upload)) = 500)
          \<and> (imdecode cv contents = Inr None \<or>
               (\<exists>fr. imdecode cv contents = Inr (Some fr) \<and> (height fr = 0 \<or> width fr = 0)) \<longrightarrow>
               http_status (fst (predict cv s upload)) = 500)
          \<and> (fst (predict_age_gender cv s contents) = Inr (Some d) \<and> d ''error'' = None \<longrightarrow>
               (\<exists>age gen g. d = [''age'' \<mapsto> age, ''gender'' \<mapsto> gen] \<and>
                  age \<in> set AGE_BUCKETS \<and> gen \<in> set GENDER_LIST \<and>
                  map_age_to_group (str_of age) = Inr g \<and>
                  fst (predict cv s upload) =
                    Inr \<lparr>status_code = 200,
                         content = [''age'' \<mapsto> age, ''gender'' \<mapsto> gen, ''age_group'' \<mapsto> g]\<rparr>)))"
proof -
  have a: "http_status (fst (predict cv s upload)) = 400" if "read_file upload = Inl e"
    using predict_unreadable [OF assms that] by simp
  have b: "http_status (fst (predict cv s upload)) = 400" if "read_file upload = Inr []"
    using predict_empty [OF assms that] by simp
  have c: "http_status (fst (predict cv s upload)) = (if str_in ''No face detected'' err then 400 else 500)"
    if "read_file upload = Inr contents" "contents \<noteq> []"
      "fst (predict_age_gender cv s contents) = Inr (Some d)" "d ''error'' = Some err"
    using fst_predict_nonempty(1) [OF assms that(1,2) predict_results_error [OF that(3,4)]]
    by simp
  have e: "http_status (fst (predict cv s upload)) = 500"
    if "read_file upload = Inr contents" "contents \<noteq> []"
      "fst (predict_age_gender cv s contents) = Inr None"
    using fst_predict_nonempty(1) [OF assms that(1,2) predict_results_None [OF that(3)]]
    by simp
  have f: "fst (predict_age_gender cv s contents) = Inr None"
    if "imdecode cv contents = Inr None \<or>
        (\<exists>fr. imdecode cv contents = Inr (Some fr) \<and> (height fr = 0 \<or> width fr = 0))"
    using that assms imdecode_None imdecode_zero_dim unfolding models_ready_def by blast
  have g: "\<exists>age gen g. d = [''age'' \<mapsto> age, ''gender'' \<mapsto> gen] \<and>
                  age \<in> set AGE_BUCKETS \<and> gen \<in> set GENDER_LIST \<and>
                  map_age_to_group (str_of age) = Inr g \<and>
                  fst (predict cv s upload) =
                    Inr \<lparr>status_code = 200,
                         content = [''age'' \<mapsto> age, ''gender'' \<mapsto> gen, ''age_group'' \<mapsto> g]\<rparr>"
    if "read_file upload = Inr contents" "contents \<noteq> []"
      "fst (predict_age_gender cv s contents) = Inr (Some d)" "d ''error'' = None"
    using predict_results_success [OF that(3,4)] fst_predict_nonempty(2) [OF assms that(1,2)]
    by blast
  from a b c e f g show ?thesis by (intro conjI impI; (elim conjE)?) simp_all
qed

lemmas http_defs = predict_def predict_results_def read_contents_def models_ready_def ex_upload_def

lemma ex_run_failing:
  "fst (predict_age_gender ex_cv_failing ex_world ex_image) =
     Inr (Some [''error'' \<mapsto> ''OpenCV processing error: imdecode failed''])"
  by (simp add: ex_cv_failing_def ex_defs run_defs)

lemma ex_ready: "models_ready ex_world" "models_ready ex_world_no_detection"
  by (simp_all add: models_ready_def ex_defs)

text \<open>
  Claim C4 as stated fails for an upload that is not an image: the bytes are read, they
  are not empty, the decoder gives no image, the pipeline returns no result, and the
  status is 500, not 400.
\<close>

theorem http_undecodable_upload_is_500:
  "models_ready ex_world
   \<and> read_file (ex_upload (Inr ex_garbage)) = Inr ex_garbage
   \<and> ex_garbage \<noteq> []
   \<and> imdecode ex_cv ex_garbage = Inr None
   \<and> http_status (fst (predict ex_cv ex_world (ex_upload (Inr ex_garbage)))) = 500
   \<and> http_status (fst (predict ex_cv ex_world (ex_upload (Inr ex_garbage)))) \<noteq> 400"
  by (simp add: http_defs ex_defs run_defs)

theorem http_predict_status_witness:
  "models_ready ex_world
   \<and> http_status (fst (predict ex_cv ex_world (ex_upload (Inl (OtherException ''read failed''))))) = 400
   \<and> http_status (fst (predict ex_cv ex_world (ex_upload (Inr [])))) = 400
   \<and> http_status (fst (predict ex_cv ex_world_no_detection (ex_upload (Inr ex_image)))) = 400
   \<and> http_status (fst (predict ex_cv_failing ex_world (ex_upload (Inr ex_image)))) = 500
   \<and> http_status (fst (predict ex_cv ex_world (ex_upload (Inr ex_garbage)))) = 500
   \<and> fst (predict_age_gender ex_cv ex_world ex_image) =
        Inr (Some [''age'' \<mapsto> ''(25-32)'', ''gender'' \<mapsto> ''Female''])
   \<and> fst (predict ex_cv ex_world (ex_upload (Inr ex_image))) =
        Inr \<lparr>status_code = 200,
             content = [''age'' \<mapsto> ''(25-32)'', ''gender'' \<mapsto> ''Female'',
                        ''age_group'' \<mapsto> ''young_adult'']\<rparr>"
proof -
  note unreadable = http_predict_status [OF ex_ready(1), where cv = ex_cv
      and upload = "ex_upload (Inl (OtherException ''read failed''))"
      and e = "OtherException ''read failed''"]
  note empty = http_predict_status [OF ex_ready(1), where cv = ex_cv and upload = "ex_upload (Inr [])"]
  note no_face = http_predict_status [OF ex_ready(2), where cv = ex_cv
      and upload = "ex_upload (Inr ex_image)" and contents = ex_image
      and d = "[''error'' \<mapsto> ''No face detected'']" and err = "''No face detected''"]
  note other = http_predict_status [OF ex_ready(1), where cv = ex_cv_failing
      and upload = "ex_upload (Inr ex_image)" and contents = ex_image
      and d = "[''error'' \<mapsto> ''OpenCV processing error: imdecode failed'']"
      and err = "''OpenCV processing error: imdecode failed''"]
  note garbage = http_predict_status [OF ex_ready(1), where cv = ex_cv
      and upload = "ex_upload (Inr ex_garbage)" and contents = ex_garbage]
  note success = http_predict_status [OF ex_ready(1), where cv = ex_cv
      and upload = "ex_upload (Inr ex_image)" and contents = ex_image
      and d = "[''age'' \<mapsto> ''(25-32)'', ''gender'' \<mapsto> ''Female'']"]
  have 1: "http_status (fst (predict ex_cv ex_world (ex_upload (Inl (OtherException ''read failed''))))) = 400"
    using unreadable by (simp add: ex_upload_def)
  have 2: "http_status (fst (predict ex_cv ex_world (ex_upload (Inr [])))) = 400"
    using empty by (simp add: ex_upload_def)
  have 3: "http_status (fst (predict ex_cv ex_world_no_detection (ex_upload (Inr ex_image)))) = 400"
    using no_face ex_run_no_detection by (simp add: ex_upload_def ex_image_def)
  have 4: "http_status (fst (predict ex_cv_failing ex_world (ex_upload (Inr ex_image)))) = 500"
    using other ex_run_failing by (simp add: ex_upload_def ex_image_def)
  have 5: "http_status (fst (predict ex_cv ex_world (ex_upload (Inr ex_garbage)))) = 500"
    using garbage ex_run_garbage by (simp add: ex_upload_def ex_garbage_def)
  from success ex_run obtain age gen g where
    d: "[''age'' \<mapsto> ''(25-32)'', ''gender'' \<mapsto> ''Female''] = [''age'' \<mapsto> age, ''gender'' \<mapsto> gen]"
    and g: "map_age_to_group (str_of age) = Inr g"
    and r: "fst (predict ex_cv ex_world (ex_upload (Inr ex_image))) =
            Inr \<lparr>status_code = 200,
                 content = [''age'' \<mapsto> age, ''gender'' \<mapsto> gen, ''age_group'' \<mapsto> g]\<rparr>"
    by (auto simp: ex_upload_def ex_image_def)
  from d have "[''age'' \<mapsto> ''(25-32)'', ''gender'' \<mapsto> ''Female''] ''age'' =
               [''age'' \<mapsto> age, ''gender'' \<mapsto> gen] ''age''"
    and "[''age'' \<mapsto> ''(25-32)'', ''gender'' \<mapsto> ''Female''] ''gender'' =
               [''age'' \<mapsto> age, ''gender'' \<mapsto> gen] ''gender''"
    by simp_all
  then have age: "age = ''(25-32)''" and gen: "gen = ''Female''"
    by simp_all
  from g age have "g = ''young_adult''"
    by (simp add: age_eval)
  with r age gen have 6: "fst (predict ex_cv ex_world (ex_upload (Inr ex_image))) =
        Inr \<lparr>status_code = 200,
             content = [''age'' \<mapsto> ''(25-32)'', ''gender'' \<mapsto> ''Female'',
                        ''age_group'' \<mapsto> ''young_adult'']\<rparr>"
    by simp
  from ex_ready(1) 1 2 3 4 5 6 ex_run show ?thesis by blast
qed

subsection \<open>The RPC success path\<close>

lemma py_lower_gender: "gen \<in> set GENDER_LIST \<Longrightarrow> py_lower gen \<in> {''male'', ''female''}"
  by (auto simp: GENDER_LIST_def py_lower_def lower_char_def)

text \<open>
  Claim C8. When the pipeline succeeds with \<open>{age, gender}\<close>, the response of \<open>Predict\<close>
  has \<open>age_group\<close> equal to \<open>map_age_to_group\<close> of the age, \<open>gender\<close> equal to the label in
  lower case, which is \<open>male\<close> or \<open>female\<close>, and \<open>confidence\<close> equal to the constant 0.95;
  the status of the call is left as it was.
\<close>

theorem rpc_success_response:
  assumes "image_data request \<noteq> []"
    and "predict_age_gender cv s (image_data request) = (Inr (Some result), s')"
    and "result ''error'' = None"
  shows "\<exists>age gen g. result ''age'' = Some age \<and> result ''gender'' = Some gen \<and>
           map_age_to_group (str_of age) = Inr g \<and>
           Predict cv s request ctx =
             (\<lparr>age_group = g, gender = py_lower gen, confidence = 0.95\<rparr>, ctx, s') \<and>
           py_lower gen \<in> {''male'', ''female''}"
proof -
  from assms(2) have "fst (predict_age_gender cv s (image_data request)) = Inr (Some result)"
    by simp
  from predict_success_shape [OF this assms(3)] obtain age gen where
    d: "result = [''age'' \<mapsto> age, ''gender'' \<mapsto> gen]" and mem: "gen \<in> set GENDER_LIST"
    by blast
  define g where "g = spec_age_group (spec_first_bound (str_of age))"
  have g: "map_age_to_group (str_of age) = Inr g"
    by (simp add: g_def map_age_to_group_spec)
  have "Predict cv s request ctx = (\<lparr>age_group = g, gender = py_lower gen, confidence = 0.95\<rparr>, ctx, s')"
    using assms(1,2) d g by (simp add: Predict_def success_response_def dict_get_def)
  moreover have "result ''age'' = Some age" "result ''gender'' = Some gen"
    using d by simp_all
  ultimately show ?thesis using g py_lower_gender [OF mem] by blast
qed

lemma ex_run_full:
  "predict_age_gender ex_cv ex_world ex_image =
     (Inr (Some [''age'' \<mapsto> ''(25-32)'', ''gender'' \<mapsto> ''Female'']),
      snd (predict_age_gender ex_cv ex_world ex_image))"
  using ex_run by (cases "predict_age_gender ex_cv ex_world ex_image") simp

theorem rpc_success_response_witness:
  "Predict ex_cv ex_world \<lparr>image_data = ex_image\<rparr> ex_ctx =
     (\<lparr>age_group = ''young_adult'', gender = ''female'', confidence = 0.95\<rparr>, ex_ctx,
      snd (predict_age_gender ex_cv ex_world ex_image))"
proof -
  have ne: "image_data \<lparr>image_data = ex_image\<rparr> \<noteq> []"
    by (simp add: ex_image_def)
  have run: "predict_age_gender ex_cv ex_world (image_data \<lparr>image_data = ex_image\<rparr>) =
     (Inr (Some [''age'' \<mapsto> ''(25-32)'', ''gender'' \<mapsto> ''Female'']),
      snd (predict_age_gender ex_cv ex_world ex_image))"
    using ex_run_full by simp
  have err: "[''age'' \<mapsto> ''(25-32)'', ''gender'' \<mapsto> ''Female''] ''error'' = None"
    by simp
  from rpc_success_response [OF ne run err, of ex_ctx] show ?thesis
    by (auto simp: age_eval py_lower_def lower_char_def)
qed

section \<open>The readiness gate and the empty payload\<close>

lemma find_face_calls: "pipeline_calls (snd (find_face cv s fr)) = pipeline_calls s"
  by (simp add: find_face_def Let_def split: option.splits sum.splits)

lemma classify_face_calls: "pipeline_calls (snd (classify_face s b)) = pipeline_calls s"
  by (simp add: classify_face_def Let_def split: prod.splits sum.splits)

lemma try_calls: "pipeline_calls (snd (predict_age_gender_try cv s bs)) = pipeline_calls s"
proof (cases "imdecode cv bs")
  case (Inl e)
  then show ?thesis by (simp add: predict_age_gender_try_def)
next
  case (Inr fo)
  show ?thesis
  proof (cases fo)
    case None
    with Inr show ?thesis by (simp add: predict_age_gender_try_def)
  next
    case (Some fr)
    obtain r s1 where ff: "find_face cv s fr = (r, s1)"
      by (cases "find_face cv s fr") auto
    then have "pipeline_calls s1 = pipeline_calls s"
      using find_face_calls [of cv s fr] by simp
    with Inr Some ff show ?thesis
      using classify_face_calls [of s1]
      by (simp add: predict_age_gender_try_def Let_def split: sum.splits option.splits prod.splits)
  qed
qed

text \<open>Every call of \<open>predict_age_gender\<close> is counted once.\<close>

lemma predict_age_gender_calls:
  "pipeline_calls (snd (predict_age_gender cv s bs)) = Suc (pipeline_calls s)"
proof (cases "age_net s = None \<or> gender_net s = None")
  case True
  then show ?thesis by (auto simp: predict_age_gender_def Let_def)
next
  case False
  obtain r s' where run: "predict_age_gender_try cv (s\<lparr>pipeline_calls := Suc (pipeline_calls s)\<rparr>) bs = (r, s')"
    by (cases "predict_age_gender_try cv (s\<lparr>pipeline_calls := Suc (pipeline_calls s)\<rparr>) bs") auto
  then have "pipeline_calls s' = Suc (pipeline_calls s)"
    using try_calls [of cv "s\<lparr>pipeline_calls := Suc (pipeline_calls s)\<rparr>" bs] by simp
  with False run show ?thesis
    by (simp add: predict_age_gender_def Let_def split: sum.splits exn.splits)
qed

lemma predict_age_gender_unloaded:
  "age_net s = None \<or> gender_net s = None \<Longrightarrow>
   predict_age_gender cv s bs = (Inr None, s\<lparr>pipeline_calls := Suc (pipeline_calls s)\<rparr>)"
  by (auto simp: predict_age_gender_def Let_def)

lemma try_no_face_net:
  assumes "face_net s = None"
  shows "(\<exists>e. fst (predict_age_gender_try cv s bs) = Inl e) \<or>
         fst (predict_age_gender_try cv s bs) = Inr None \<or>
         fst (predict_age_gender_try cv s bs) = Inr (Some [''error'' \<mapsto> ''No face detected''])"
  using assms
  by (simp add: predict_age_gender_try_def find_face_def Let_def split: sum.splits option.splits)

text \<open>Without a face detector the pipeline never reports a success.\<close>

lemma no_face_net_no_success:
  assumes "face_net s = None"
  shows "fst (predict_age_gender cv s bs) = Inr None \<or>
         (\<exists>d err. fst (predict_age_gender cv s bs) = Inr (Some d) \<and> d ''error'' = Some err)"
proof (cases "age_net s = None \<or> gender_net s = None")
  case True
  then show ?thesis by (simp add: predict_age_gender_unloaded)
next
  case False
  define s1 where "s1 = s\<lparr>pipeline_calls := Suc (pipeline_calls s)\<rparr>"
  have fn: "face_net s1 = None" using assms by (simp add: s1_def)
  obtain r s' where run: "predict_age_gender_try cv s1 bs = (r, s')"
    by (cases "predict_age_gender_try cv s1 bs") auto
  from try_no_face_net [OF fn, of cv bs] run
  consider e where "r = Inl e" | "r = Inr None" | "r = Inr (Some [''error'' \<mapsto> ''No face detected''])"
    by auto
  then show ?thesis
  proof cases
    case 1
    with False run show ?thesis
      by (cases e) (simp_all add: predict_age_gender_def Let_def s1_def)
  next
    case 2
    with False run show ?thesis by (simp add: predict_age_gender_def Let_def s1_def)
  next
    case 3
    with False run show ?thesis by (simp add: predict_age_gender_def Let_def s1_def)
  qed
qed

lemma not_ready_no_success:
  assumes "\<not> models_ready s"
  shows "fst (predict_age_gender cv s bs) = Inr None \<or>
         (\<exists>d err. fst (predict_age_gender cv s bs) = Inr (Some d) \<and> d ''error'' = Some err)"
proof (cases "face_net s = None")
  case True
  then show ?thesis by (rule no_face_net_no_success)
next
  case False
  with assms have "age_net s = None \<or> gender_net s = None"
    by (auto simp: models_ready_def)
  then show ?thesis by (simp add: predict_age_gender_unloaded)
qed

lemma Predict_empty:
  "image_data request = [] \<Longrightarrow>
   Predict cv s request ctx = (PredictResponse, set_status INVALID_ARGUMENT ''Empty image data'' ctx, s)"
  by (simp add: Predict_def)

lemma Predict_world:
  "image_data request \<noteq> [] \<Longrightarrow>
   snd (snd (Predict cv s request ctx)) = snd (predict_age_gender cv s (image_data request))"
  by (simp add: Predict_def split: prod.splits sum.splits option.splits)

lemma Predict_None:
  "image_data request \<noteq> [] \<Longrightarrow> fst (predict_age_gender cv s (image_data request)) = Inr None \<Longrightarrow>
   fst (Predict cv s request ctx) = PredictResponse \<and>
   fst (snd (Predict cv s request ctx)) = set_status INTERNAL ''Prediction failed'' ctx"
  by (cases "predict_age_gender cv s (image_data request)") (simp add: Predict_def)

lemma Predict_error:
  "image_data request \<noteq> [] \<Longrightarrow>
   fst (predict_age_gender cv s (image_data request)) = Inr (Some d) \<Longrightarrow> d ''error'' = Some err \<Longrightarrow>
   fst (Predict cv s request ctx) = PredictResponse \<and>
   fst (snd (Predict cv s request ctx)) =
     set_status (if str_in ''No face detected'' err then FAILED_PRECONDITION else INTERNAL) err ctx"
  by (cases "predict_age_gender cv s (image_data request)") (simp add: Predict_def)

lemma ex_not_ready: "\<not> models_ready ex_world_unloaded" "\<not> models_ready ex_world_no_face_net"
  by (simp_all add: models_ready_def ex_defs)

text \<open>
  Claim C3 as stated fails for the RPC handler: with no model loaded and a payload that
  is not empty it calls \<open>predict_age_gender\<close> (the counter goes from 0 to 1) and sets the
  status \<open>INTERNAL\<close>, not \<open>UNAVAILABLE\<close>.
\<close>

theorem rpc_not_ready_calls_pipeline:
  "\<not> models_ready ex_world_unloaded
   \<and> pipeline_calls ex_world_unloaded = 0
   \<and> pipeline_calls (snd (snd (Predict ex_cv ex_world_unloaded \<lparr>image_data = ex_image\<rparr> ex_ctx))) = 1
   \<and> code (fst (snd (Predict ex_cv ex_world_unloaded \<lparr>image_data = ex_image\<rparr> ex_ctx))) = INTERNAL
   \<and> code (fst (snd (Predict ex_cv ex_world_unloaded \<lparr>image_data = ex_image\<rparr> ex_ctx))) \<noteq> UNAVAILABLE"
  by (simp add: Predict_def set_status_def models_ready_def ex_defs run_defs)

text \<open>
  Claim C3, amended. When the models are not ready, \<open>POST /predict\<close> answers 503 at once
  and leaves the state as it was, so \<open>predict_age_gender\<close> is not called. \<open>Predict\<close> has no
  such gate: an empty payload is refused with \<open>INVALID_ARGUMENT\<close> and no call of the
  pipeline; for any other payload \<open>predict_age_gender\<close> is called once, the response is
  the empty one and the status is \<open>INTERNAL\<close> or \<open>FAILED_PRECONDITION\<close>; when the age
  or the gender model is missing the call returns no result before it decodes anything
  and the status is \<open>INTERNAL\<close> with the detail \<open>Prediction failed\<close>.
\<close>

theorem not_ready_responses:
  assumes "\<not> models_ready s"
  shows
    "predict cv s upload =
       (Inl (HTTPException 503 ''Models are not loaded, service cannot process requests.''), s)
     \<and> http_status (fst (predict cv s upload)) = 503
     \<and> (image_data request = [] \<longrightarrow>
          Predict cv s request ctx =
            (PredictResponse, set_status INVALID_ARGUMENT ''Empty image data'' ctx, s))
     \<and> (image_data request \<noteq> [] \<longrightarrow>
          pipeline_calls (snd (snd (Predict cv s request ctx))) = Suc (pipeline_calls s) \<and>
          fst (Predict cv s request ctx) = PredictResponse \<and>
          code (fst (snd (Predict cv s request ctx))) \<in> {INTERNAL, FAILED_PRECONDITION})
     \<and> (image_data request \<noteq> [] \<and> (age_net s = None \<or> gender_net s = None) \<longrightarrow>
          Predict cv s request ctx =
            (PredictResponse, set_status INTERNAL ''Prediction failed'' ctx,
             s\<lparr>pipeline_calls := Suc (pipeline_calls s)\<rparr>))"
proof -
  have http: "predict cv s upload =
       (Inl (HTTPException 503 ''Models are not loaded, service cannot process requests.''), s)"
    using assms by (rule predict_not_ready)
  have rpc: "pipeline_calls (snd (snd (Predict cv s request ctx))) = Suc (pipeline_calls s) \<and>
          fst (Predict cv s request ctx) = PredictResponse \<and>
          code (fst (snd (Predict cv s request ctx))) \<in> {INTERNAL, FAILED_PRECONDITION}"
    if ne: "image_data request \<noteq> []"
  proof -
    have calls: "pipeline_calls (snd (snd (Predict cv s request ctx))) = Suc (pipeline_calls s)"
      by (simp add: Predict_world [OF ne] predict_age_gender_calls)
    from not_ready_no_success [OF assms, of cv "image_data request"]
    show ?thesis
    proof (elim disjE exE conjE)
      assume "fst (predict_age_gender cv s (image_data request)) = Inr None"
      from Predict_None [OF ne this, of ctx] calls show ?thesis
        by (simp add: set_status_def)
    next
      fix d err
      assume "fst (predict_age_gender cv s (image_data request)) = Inr (Some d)"
        and "d ''error'' = Some err"
      from Predict_error [OF ne this, of ctx] calls show ?thesis
        by (simp add: set_status_def)
    qed
  qed
  have unloaded: "Predict cv s request ctx =
            (PredictResponse, set_status INTERNAL ''Prediction failed'' ctx,
             s\<lparr>pipeline_calls := Suc (pipeline_calls s)\<rparr>)"
    if "image_data request \<noteq> []" "age_net s = None \<or> gender_net s = None"
    using that by (simp add: Predict_def predict_age_gender_unloaded)
  from http rpc unloaded Predict_empty [of request cv s ctx] show ?thesis
    by simp
qed

theorem not_ready_responses_witness:
  "\<not> models_ready ex_world_unloaded
   \<and> predict ex_cv ex_world_unloaded (ex_upload (Inr ex_image)) =
       (Inl (HTTPException 503 ''Models are not loaded, service cannot process requests.''),
        ex_world_unloaded)
   \<and> Predict ex_cv ex_world_unloaded \<lparr>image_data = []\<rparr> ex_ctx =
       (PredictResponse, set_status INVALID_ARGUMENT ''Empty image data'' ex_ctx, ex_world_unloaded)
   \<and> Predict ex_cv ex_world_unloaded \<lparr>image_data = ex_image\<rparr> ex_ctx =
       (PredictResponse, set_status INTERNAL ''Prediction failed'' ex_ctx,
        ex_world_unloaded\<lparr>pipeline_calls := Suc (pipeline_calls ex_world_unloaded)\<rparr>)
   \<and> code (fst (snd (Predict ex_cv ex_world_no_face_net \<lparr>image_data = ex_image\<rparr> ex_ctx)))
        \<in> {INTERNAL, FAILED_PRECONDITION}"
proof -
  have 1: "predict ex_cv ex_world_unloaded (ex_upload (Inr ex_image)) =
       (Inl (HTTPException 503 ''Models are not loaded, service cannot process requests.''),
        ex_world_unloaded)"
    using not_ready_responses [OF ex_not_ready(1)] by blast
  have 2: "Predict ex_cv ex_world_unloaded \<lparr>image_data = []\<rparr> ex_ctx =
       (PredictResponse, set_status INVALID_ARGUMENT ''Empty image data'' ex_ctx, ex_world_unloaded)"
    using not_ready_responses [OF ex_not_ready(1), where request = "\<lparr>image_data = []\<rparr>"
        and cv = ex_cv and ctx = ex_ctx]
    by simp
  have 3: "Predict ex_cv ex_world_unloaded \<lparr>image_data = ex_image\<rparr> ex_ctx =
       (PredictResponse, set_status INTERNAL ''Prediction failed'' ex_ctx,
        ex_world_unloaded\<lparr>pipeline_calls := Suc (pipeline_calls ex_world_unloaded)\<rparr>)"
    using not_ready_responses [OF ex_not_ready(1), where request = "\<lparr>image_data = ex_image\<rparr>"
        and cv = ex_cv and ctx = ex_ctx]
    by (simp add: ex_image_def ex_world_unloaded_def)
  have 4: "code (fst (snd (Predict ex_cv ex_world_no_face_net \<lparr>image_data = ex_image\<rparr> ex_ctx)))
        \<in> {INTERNAL, FAILED_PRECONDITION}"
    using not_ready_responses [OF ex_not_ready(2), where request = "\<lparr>image_data = ex_image\<rparr>"
        and cv = ex_cv and ctx = ex_ctx]
    by (simp add: ex_image_def)
  from ex_not_ready(1) 1 2 3 4 show ?thesis by blast
qed

text \<open>
  Claim C7 as stated fails for the HTTP handler when the models are not loaded: the
  readiness gate comes before the upload is read, and an empty upload is answered with
  503, not 400.
\<close>

theorem http_empty_upload_not_ready_is_503:
  "read_file (ex_upload (Inr [])) = Inr []
   \<and> http_status (fst (predict ex_cv ex_world_unloaded (ex_upload (Inr [])))) = 503
   \<and> http_status (fst (predict ex_cv ex_world_unloaded (ex_upload (Inr [])))) \<noteq> 400"
  by (simp add: http_defs ex_defs)

text \<open>
  Claim C7, amended. For an empty payload the HTTP handler answers 400 when the models
  are ready and 503 when they are not, and the RPC handler sets \<open>INVALID_ARGUMENT\<close>; in
  every one of these cases the state is left as it was, so \<open>predict_age_gender\<close> is not
  called.
\<close>

theorem empty_payload_rejected:
  "(read_file upload = Inr [] \<longrightarrow>
      http_status (fst (predict cv s upload)) = (if models_ready s then 400 else 503) \<and>
      snd (predict cv s upload) = s)
   \<and> (image_data request = [] \<longrightarrow>
        fst (Predict cv s request ctx) = PredictResponse \<and>
        code (fst (snd (Predict cv s request ctx))) = INVALID_ARGUMENT \<and>
        snd (snd (Predict cv s request ctx)) = s)"
proof (intro conjI impI)
  assume "read_file upload = Inr []"
  then show "http_status (fst (predict cv s upload)) = (if models_ready s then 400 else 503)"
    and "snd (predict cv s upload) = s"
    by (simp_all add: predict_def read_contents_cases)
next
  assume "image_data request = []"
  then show "fst (Predict cv s request ctx) = PredictResponse"
    and "code (fst (snd (Predict cv s request ctx))) = INVALID_ARGUMENT"
    and "snd (snd (Predict cv s request ctx)) = s"
    by (simp_all add: Predict_empty set_status_def)
qed

theorem empty_payload_rejected_witness:
  "http_status (fst (predict ex_cv ex_world (ex_upload (Inr [])))) = 400
   \<and> snd (predict ex_cv ex_world (ex_upload (Inr []))) = ex_world
   \<and> pipeline_calls (snd (predict ex_cv ex_world (ex_upload (Inr [])))) = 0
   \<and> code (fst (snd (Predict ex_cv ex_world \<lparr>image_data = []\<rparr> ex_ctx))) = INVALID_ARGUMENT
   \<and> snd (snd (Predict ex_cv ex_world \<lparr>image_data = []\<rparr> ex_ctx)) = ex_world"
  using empty_payload_rejected [where upload = "ex_upload (Inr [])" and cv = ex_cv
      and s = ex_world and request = "\<lparr>image_data = []\<rparr>" and ctx = ex_ctx] ex_ready(1)
  by (simp add: ex_upload_def) (simp add: ex_world_def)

section \<open>Detections below the threshold, and repeated calls\<close>

lemma find_face_loop_none_qualifies:
  "\<forall>d\<in>set ds. det_conf d \<le> FACE_CONFIDENCE_THRESHOLD \<Longrightarrow> find_face_loop w h ds acc = acc"
  by (induction ds arbitrary: acc) (auto simp: Let_def)

lemma predict_no_detection:
  assumes "face_net t = Some n" "age_net t \<noteq> None" "gender_net t \<noteq> None"
    and "imdecode cv bs = Inr (Some fr)" "height fr \<noteq> 0" "width fr \<noteq> 0"
    and "blobFromImage cv fr 1.0 (300, 300) (104.0, 177.0, 123.0) False = Inr b"
    and "net_weights n b = Inr ds"
    and "\<forall>d\<in>set ds. det_conf d \<le> FACE_CONFIDENCE_THRESHOLD"
  shows "fst (predict_age_gender cv t bs) = Inr (Some [''error'' \<mapsto> ''No face detected''])"
proof -
  have "find_face_loop (int (width fr)) (int (height fr)) ds (None, 0) = (None, 0)"
    using assms(9) by (rule find_face_loop_none_qualifies)
  with assms(1-8) show ?thesis
    by (simp add: predict_age_gender_def predict_age_gender_try_def find_face_def Let_def
        setInput_def forward_def)
qed

subsection \<open>Repeated calls\<close>

lemma same_models_refl: "same_models s s"
  by (simp add: same_models_def)

lemma same_models_sym: "same_models s t \<Longrightarrow> same_models t s"
  by (simp add: same_models_def)

lemma same_models_trans: "same_models s t \<Longrightarrow> same_models t u \<Longrightarrow> same_models s u"
  by (simp add: same_models_def)

lemma same_models_calls: "same_models s (s\<lparr>pipeline_calls := k\<rparr>)"
  by (simp add: same_models_def)

lemma run_net_same:
  assumes "map_option net_weights h1 = map_option net_weights h2"
  shows "fst (run_net h1 b) = fst (run_net h2 b)"
    and "map_option net_weights (snd (run_net h2 b)) = map_option net_weights h1"
  using assms
  by (cases h1; cases h2; simp add: run_net_def setInput_def forward_def Let_def)+

lemma find_face_same:
  assumes "same_models s t"
  shows "fst (find_face cv s fr) = fst (find_face cv t fr)"
    and "same_models s (snd (find_face cv t fr))"
proof -
  from assms have w: "map_option net_weights (face_net s) = map_option net_weights (face_net t)"
    by (simp add: same_models_def)
  show "fst (find_face cv s fr) = fst (find_face cv t fr)"
    using w
    by (cases "face_net s"; cases "face_net t";
        simp add: find_face_def setInput_def forward_def Let_def split: sum.splits)
  show "same_models s (snd (find_face cv t fr))"
    using assms w
    by (cases "face_net s"; cases "face_net t";
        simp add: find_face_def setInput_def forward_def Let_def same_models_def split: sum.splits)
qed

lemma classify_face_same:
  assumes "same_models s t"
  shows "fst (classify_face s b) = fst (classify_face t b)"
    and "same_models s (snd (classify_face t b))"
proof -
  from assms have g: "map_option net_weights (gender_net s) = map_option net_weights (gender_net t)"
    and a: "map_option net_weights (age_net s) = map_option net_weights (age_net t)"
    by (simp_all add: same_models_def)
  obtain rg g' where s_g: "run_net (gender_net s) b = (rg, g')"
    by (cases "run_net (gender_net s) b") auto
  obtain rg2 g2 where t_g: "run_net (gender_net t) b = (rg2, g2)"
    by (cases "run_net (gender_net t) b") auto
  obtain ra a' where s_a: "run_net (age_net s) b = (ra, a')"
    by (cases "run_net (age_net s) b") auto
  obtain ra2 a2 where t_a: "run_net (age_net t) b = (ra2, a2)"
    by (cases "run_net (age_net t) b") auto
  have rg: "rg2 = rg" and g2: "map_option net_weights g2 = map_option net_weights (gender_net s)"
    using run_net_same [OF g, of b] s_g t_g by simp_all
  have ra: "ra2 = ra" and a2: "map_option net_weights a2 = map_option net_weights (age_net s)"
    using run_net_same [OF a, of b] s_a t_a by simp_all
  show "fst (classify_face s b) = fst (classify_face t b)"
    using s_g t_g s_a t_a rg ra
    by (simp add: classify_face_def Let_def split: sum.splits)
  show "same_models s (snd (classify_face t b))"
    using assms t_g t_a g2 a2
    by (simp add: classify_face_def Let_def same_models_def split: sum.splits)
qed

lemma try_same:
  assumes "same_models s t"
  shows "fst (predict_age_gender_try cv s bs) = fst (predict_age_gender_try cv t bs)"
    and "same_models s (snd (predict_age_gender_try cv t bs))"
proof -
  have both: "fst (predict_age_gender_try cv s bs) = fst (predict_age_gender_try cv t bs) \<and>
              same_models s (snd (predict_age_gender_try cv t bs))"
  proof (cases "imdecode cv bs")
    case (Inl e)
    with assms show ?thesis by (simp add: predict_age_gender_try_def)
  next
    case (Inr fo)
    show ?thesis
    proof (cases fo)
      case None
      with Inr assms show ?thesis by (simp add: predict_age_gender_try_def)
    next
      case (Some fr)
      obtain r s1 where fs: "find_face cv s fr = (r, s1)"
        by (cases "find_face cv s fr") auto
      obtain r2 t1 where ft: "find_face cv t fr = (r2, t1)"
        by (cases "find_face cv t fr") auto
      have r2: "r2 = r" using find_face_same(1) [OF assms, of cv fr] fs ft by simp
      have st1: "same_models s t1" using find_face_same(2) [OF assms, of cv fr] ft by simp
      have "same_models s s1" using find_face_same(2) [OF same_models_refl, of s cv fr] fs by simp
      then have s1t1: "same_models s1 t1"
        using st1 same_models_sym same_models_trans by blast
      have cls: "fst (classify_face s1 b) = fst (classify_face t1 b)"
        "same_models s (snd (classify_face t1 b))" for b
        using classify_face_same [OF s1t1, of b] classify_face_same(2) [OF same_models_refl, of t1 b]
          st1 same_models_trans by blast+
      show ?thesis
        using Inr Some fs ft r2 st1 assms cls
        by (simp add: predict_age_gender_try_def Let_def split: sum.splits option.splits)
    qed
  qed
  from both show "fst (predict_age_gender_try cv s bs) = fst (predict_age_gender_try cv t bs)"
    and "same_models s (snd (predict_age_gender_try cv t bs))"
    by simp_all
qed

lemma predict_same:
  assumes "same_models s t"
  shows "fst (predict_age_gender cv s bs) = fst (predict_age_gender cv t bs)"
    and "same_models s (snd (predict_age_gender cv t bs))"
proof -
  define s1 where "s1 = s\<lparr>pipeline_calls := Suc (pipeline_calls s)\<rparr>"
  define t1 where "t1 = t\<lparr>pipeline_calls := Suc (pipeline_calls t)\<rparr>"
  have ss1: "same_models s s1" and tt1: "same_models t t1"
    by (simp_all add: s1_def t1_def same_models_calls)
  have s1t1: "same_models s1 t1" and st1: "same_models s t1"
    using assms ss1 tt1 same_models_sym same_models_trans by blast+
  have loaded: "(age_net s1 = None \<or> gender_net s1 = None) = (age_net t1 = None \<or> gender_net t1 = None)"
    using s1t1 by (auto simp: same_models_def)
  obtain r s' where rs: "predict_age_gender_try cv s1 bs = (r, s')"
    by (cases "predict_age_gender_try cv s1 bs") auto
  obtain r2 t' where rt: "predict_age_gender_try cv t1 bs = (r2, t')"
    by (cases "predict_age_gender_try cv t1 bs") auto
  have r2: "r2 = r" using try_same(1) [OF s1t1, of cv bs] rs rt by simp
  have st': "same_models s t'" using try_same(2) [OF st1, of cv bs] rt by simp
  show "fst (predict_age_gender cv s bs) = fst (predict_age_gender cv t bs)"
    using loaded rs rt r2 unfolding predict_age_gender_def Let_def s1_def [symmetric] t1_def [symmetric]
    by (simp split: sum.splits exn.splits)
  show "same_models s (snd (predict_age_gender cv t bs))"
    using st1 st' rt unfolding predict_age_gender_def Let_def t1_def [symmetric]
    by (simp split: sum.splits exn.splits)
qed

text \<open>
  Claim C9. A call of \<open>predict_age_gender\<close> leaves the loaded weights as they were, and
  its result depends only on the engine, the weights and the bytes: two states that hold
  the same models give the same result on the same bytes, whatever blob an earlier call
  left in a net. In particular a second call with the same bytes, made after the first,
  returns the same result, hence the same bucket, label and derived category. This is
  about calls made one after the other.
\<close>

theorem predict_age_gender_deterministic:
  "same_models s (snd (predict_age_gender cv s other_bytes))
   \<and> (same_models s t \<longrightarrow>
        fst (predict_age_gender cv s image_bytes) = fst (predict_age_gender cv t image_bytes))
   \<and> fst (predict_age_gender cv (snd (predict_age_gender cv s image_bytes)) image_bytes) =
       fst (predict_age_gender cv s image_bytes)"
proof (intro conjI impI)
  show "same_models s (snd (predict_age_gender cv s other_bytes))"
    using predict_same(2) [OF same_models_refl] .
  show "fst (predict_age_gender cv s image_bytes) = fst (predict_age_gender cv t image_bytes)"
    if "same_models s t"
    using predict_same(1) [OF that] .
  have "same_models s (snd (predict_age_gender cv s image_bytes))"
    using predict_same(2) [OF same_models_refl] .
  from predict_same(1) [OF this]
  show "fst (predict_age_gender cv (snd (predict_age_gender cv s image_bytes)) image_bytes) =
       fst (predict_age_gender cv s image_bytes)"
    by simp
qed

theorem predict_age_gender_deterministic_witness:
  "same_models ex_world ex_world_used
   \<and> net_input (the (gender_net ex_world_used)) \<noteq> net_input (the (gender_net ex_world))
   \<and> fst (predict_age_gender ex_cv ex_world_used ex_image) =
       Inr (Some [''age'' \<mapsto> ''(25-32)'', ''gender'' \<mapsto> ''Female''])"
proof -
  have sm: "same_models ex_world ex_world_used"
    by (simp add: same_models_def ex_world_used_def ex_defs)
  have "net_input (the (gender_net ex_world_used)) \<noteq> net_input (the (gender_net ex_world))"
    by (simp add: ex_world_used_def ex_defs)
  moreover have "fst (predict_age_gender ex_cv ex_world_used ex_image) =
       Inr (Some [''age'' \<mapsto> ''(25-32)'', ''gender'' \<mapsto> ''Female''])"
    using predict_age_gender_deterministic [where s = ex_world and t = ex_world_used
        and cv = ex_cv and image_bytes = ex_image] sm ex_run
    by simp
  ultimately show ?thesis using sm by blast
qed

section \<open>A missing face detector\<close>

lemma load_models_all_or_nothing:
  "load_models read_face read_age read_gender = Inr s \<Longrightarrow> all_or_nothing s"
  by (auto simp: load_models_def all_or_nothing_def split: sum.splits exn.splits)

lemma same_models_all_or_nothing:
  assumes "same_models s t" and "all_or_nothing s"
  shows "all_or_nothing t"
proof -
  from assms(1) have "(face_net t = None) = (face_net s = None)"
    "(age_net t = None) = (age_net s = None)" "(gender_net t = None) = (gender_net s = None)"
    unfolding same_models_def by (metis option.map_disc_iff)+
  with assms(2) show ?thesis by (simp add: all_or_nothing_def)
qed

lemma predict_age_gender_all_or_nothing:
  "all_or_nothing s \<Longrightarrow> all_or_nothing (snd (predict_age_gender cv s bs))"
  using predict_same(2) [OF same_models_refl] same_models_all_or_nothing by blast

lemma predict_world:
  "snd (predict cv s upload) = s \<or> (\<exists>c. snd (predict cv s upload) = snd (predict_age_gender cv s c))"
proof (cases "models_ready s")
  case False
  then show ?thesis by (simp add: predict_def)
next
  case True
  show ?thesis
  proof (cases "read_contents upload")
    case (Inl e)
    with True show ?thesis by (simp add: predict_def)
  next
    case (Inr c)
    obtain r s' where run: "predict_age_gender cv s c = (r, s')"
      by (cases "predict_age_gender cv s c") auto
    then have "snd (predict_results cv s c) = s'"
      by (simp add: predict_results_def split: sum.splits option.splits)
    then have "snd (predict cv s upload) = s'"
      using True Inr
      by (cases "predict_results cv s c")
         (simp add: predict_def split: sum.splits exn.splits)
    with run show ?thesis by (metis snd_conv)
  qed
qed

lemma handlers_all_or_nothing:
  assumes "all_or_nothing s"
  shows "all_or_nothing (snd (predict cv s upload))"
    and "all_or_nothing (snd (snd (Predict cv s request ctx)))"
proof -
  show "all_or_nothing (snd (predict cv s upload))"
    using predict_world [of cv s upload] assms predict_age_gender_all_or_nothing by auto
  show "all_or_nothing (snd (snd (Predict cv s request ctx)))"
  proof (cases "image_data request = []")
    case True
    with assms show ?thesis by (simp add: Predict_empty)
  next
    case False
    with assms show ?thesis
      by (simp add: Predict_world predict_age_gender_all_or_nothing)
  qed
qed

lemma ex_loaded:
  "load_models (Inl (Cv2Error ''cannot open the model file'')) (Inl (Cv2Error [])) (Inl (Cv2Error [])) =
     Inr ex_world_unloaded"
  "load_models (Inr (ex_net [ex_faint])) (Inr (ex_net [[0, 0, 0, 0, 1, 0, 0, 0]]))
     (Inr (ex_net [[0.25, 0.75]])) = Inr ex_world_no_detection"
  by (simp_all add: load_models_def ex_defs)

text \<open>
  Claim C5. The loader leaves all three handles loaded or all three \<open>None\<close>, and the
  pipeline and the two handlers keep it so. In every such state with \<open>face_net\<close> null,
  \<open>predict_age_gender\<close> returns \<open>None\<close> for every input, which differs from the
  dictionary \<open>{error: "No face detected"}\<close>; and that dictionary is what it returns when
  the detector runs on a decoded image and no detection has a confidence above 0.5.
\<close>

theorem missing_face_net_reported_distinctly:
  "(load_models read_face read_age read_gender = Inr s0 \<longrightarrow> all_or_nothing s0)
   \<and> (all_or_nothing s \<longrightarrow>
        all_or_nothing (snd (predict_age_gender cv s other_bytes)) \<and>
        all_or_nothing (snd (predict cv s upload)) \<and>
        all_or_nothing (snd (snd (Predict cv s request ctx))))
   \<and> (all_or_nothing s \<and> face_net s = None \<longrightarrow>
        fst (predict_age_gender cv s image_bytes) = Inr None \<and>
        fst (predict_age_gender cv s image_bytes) \<noteq> Inr (Some [''error'' \<mapsto> ''No face detected'']))
   \<and> (face_net t = Some n \<and> age_net t \<noteq> None \<and> gender_net t \<noteq> None \<and>
        imdecode cv image_bytes = Inr (Some fr) \<and> height fr \<noteq> 0 \<and> width fr \<noteq> 0 \<and>
        blobFromImage cv fr 1.0 (300, 300) (104.0, 177.0, 123.0) False = Inr b \<and>
        net_weights n b = Inr ds \<and> (\<forall>d\<in>set ds. det_conf d \<le> 0.5) \<longrightarrow>
        fst (predict_age_gender cv t image_bytes) = Inr (Some [''error'' \<mapsto> ''No face detected'']))"
proof (intro conjI impI; (elim conjE)?)
  assume "load_models read_face read_age read_gender = Inr s0"
  then show "all_or_nothing s0" by (rule load_models_all_or_nothing)
next
  assume "all_or_nothing s"
  then show "all_or_nothing (snd (predict_age_gender cv s other_bytes))"
    by (rule predict_age_gender_all_or_nothing)
next
  assume "all_or_nothing s"
  then show "all_or_nothing (snd (predict cv s upload))"
    by (rule handlers_all_or_nothing(1))
next
  assume "all_or_nothing s"
  then show "all_or_nothing (snd (snd (Predict cv s request ctx)))"
    by (rule handlers_all_or_nothing(2))
next
  assume "all_or_nothing s" "face_net s = None"
  then have "age_net s = None \<or> gender_net s = None"
    by (auto simp: all_or_nothing_def)
  then show "fst (predict_age_gender cv s image_bytes) = Inr None"
    by (simp add: predict_age_gender_unloaded)
next
  assume "all_or_nothing s" "face_net s = None"
  then have "age_net s = None \<or> gender_net s = None"
    by (auto simp: all_or_nothing_def)
  then show "fst (predict_age_gender cv s image_bytes) \<noteq> Inr (Some [''error'' \<mapsto> ''No face detected''])"
    by (simp add: predict_age_gender_unloaded)
next
  assume "face_net t = Some n" "age_net t \<noteq> None" "gender_net t \<noteq> None"
    "imdecode cv image_bytes = Inr (Some fr)" "height fr \<noteq> 0" "width fr \<noteq> 0"
    "blobFromImage cv fr 1.0 (300, 300) (104.0, 177.0, 123.0) False = Inr b"
    "net_weights n b = Inr ds" "\<forall>d\<in>set ds. det_conf d \<le> 0.5"
  then show "fst (predict_age_gender cv t image_bytes) = Inr (Some [''error'' \<mapsto> ''No face detected''])"
    using predict_no_detection [of t n cv image_bytes fr b ds]
    by (simp add: FACE_CONFIDENCE_THRESHOLD_def)
qed

theorem missing_face_net_reported_distinctly_witness:
  "load_models (Inl (Cv2Error ''cannot open the model file'')) (Inl (Cv2Error [])) (Inl (Cv2Error [])) =
     Inr ex_world_unloaded
   \<and> all_or_nothing ex_world_unloaded
   \<and> face_net ex_world_unloaded = None
   \<and> all_or_nothing (snd (snd (Predict ex_cv ex_world_unloaded \<lparr>image_data = ex_image\<rparr> ex_ctx)))
   \<and> fst (predict_age_gender ex_cv ex_world_unloaded ex_image) = Inr None
   \<and> fst (predict_age_gender ex_cv ex_world_no_detection ex_image) =
       Inr (Some [''error'' \<mapsto> ''No face detected''])"
proof -
  have 1: "all_or_nothing ex_world_unloaded"
    using missing_face_net_reported_distinctly [where s0 = ex_world_unloaded
        and read_face = "Inl (Cv2Error ''cannot open the model file'')"
        and read_age = "Inl (Cv2Error [])" and read_gender = "Inl (Cv2Error [])"] ex_loaded(1)
    by blast
  have 2: "face_net ex_world_unloaded = None"
    by (simp add: ex_world_unloaded_def)
  have 3: "all_or_nothing (snd (snd (Predict ex_cv ex_world_unloaded \<lparr>image_data = ex_image\<rparr> ex_ctx)))"
    using missing_face_net_reported_distinctly [where s = ex_world_unloaded and cv = ex_cv
        and request = "\<lparr>image_data = ex_image\<rparr>" and ctx = ex_ctx] 1
    by blast
  have 4: "fst (predict_age_gender ex_cv ex_world_unloaded ex_image) = Inr None"
    using missing_face_net_reported_distinctly [where s = ex_world_unloaded and cv = ex_cv
        and image_bytes = ex_image] 1 2
    by blast
  have 5: "fst (predict_age_gender ex_cv ex_world_no_detection ex_image) =
       Inr (Some [''error'' \<mapsto> ''No face detected''])"
    using missing_face_net_reported_distinctly [where t = ex_world_no_detection and cv = ex_cv
        and image_bytes = ex_image and fr = ex_frame and n = "ex_net [ex_faint]"
        and b = "Blob [1, 3, 300, 300] []" and ds = "[ex_faint]"]
    by (simp add: ex_defs)
  from ex_loaded(1) 1 2 3 4 5 show ?thesis by blast
qed

end
